theory Spec2Isabelle
  imports Complex_Main "HOL-Library.Char_ord" "HOL-Library.List_Lexorder"
begin

section \<open>Python values used by the recommendation core\<close>

text \<open>
  The engine (\<^verbatim>\<open>app/ai/recommendations.py\<close>) and the colour analyser
  (\<^verbatim>\<open>app/ai/color_analysis.py\<close>) are embedded function by function; a method
  \<^verbatim>\<open>_name\<close> of the source is the constant \<open>name\<close> here. Scores are Python floats built
  from the literals 0.0, 0.5, 0.6, 0.1, 0.05 and 1.0 by addition and \<^verbatim>\<open>min\<close>; they are
  modelled as exact rationals. Strings are byte lists and are taken to be ASCII. Exceptions
  are values of \<open>py_error\<close>; logging is left out.
\<close>

datatype py_error = KeyError | TypeError | AttributeError

text \<open>\<^verbatim>\<open>str.lower()\<close> on the ASCII range. A byte is an upper-case letter when its
  three high bits are \<open>010\<close> and its five low bits count 1..26 (\<^verbatim>\<open>A\<close> is 65, \<^verbatim>\<open>Z\<close> is
  90); lowering sets bit 5 (adds 32). Every other byte is left alone.\<close>

fun lower_char :: "char \<Rightarrow> char" where
  "lower_char (Char b0 b1 b2 b3 b4 b5 b6 b7) =
     (let n = (of_bool b0 + 2 * of_bool b1 + 4 * of_bool b2 + 8 * of_bool b3
                 + 16 * of_bool b4 :: nat)
      in if \<not> b7 \<and> b6 \<and> \<not> b5 \<and> 1 \<le> n \<and> n \<le> 26
         then Char b0 b1 b2 b3 b4 True b6 b7
         else Char b0 b1 b2 b3 b4 b5 b6 b7)"

definition py_lower :: "string \<Rightarrow> string" where
  "py_lower s = map lower_char s"

text \<open>\<^verbatim>\<open>x and x.lower() in xs\<close> for an attribute that is \<^verbatim>\<open>None\<close> or a string: a missing
  or empty string is falsy.\<close>

definition lowered_in :: "string option \<Rightarrow> string list \<Rightarrow> bool" where
  "lowered_in x xs = (case x of None \<Rightarrow> False | Some s \<Rightarrow> s \<noteq> [] \<and> py_lower s \<in> set xs)"

text \<open>\<^verbatim>\<open>str(x)\<close> for an attribute that is \<^verbatim>\<open>None\<close> or a string.\<close>

definition py_str :: "string option \<Rightarrow> string" where
  "py_str x = (case x of None \<Rightarrow> ''None'' | Some s \<Rightarrow> s)"

text \<open>\<^verbatim>\<open>xs[:n]\<close>: a negative bound counts from the end.\<close>

definition py_take :: "int \<Rightarrow> 'a list \<Rightarrow> 'a list" where
  "py_take n xs = (if 0 \<le> n then take (nat n) xs else take (length xs - nat (- n)) xs)"

section \<open>Colour analyser\<close>

text \<open>\<^verbatim>\<open>ColorAnalyzer.color_wheel\<close>: colour name to (hue, saturation, value).\<close>

definition color_wheel_items :: "(string \<times> (int \<times> int \<times> int)) list" where
  "color_wheel_items =
     [(''red'', (0, 100, 100)),
      (''orange'', (30, 100, 100)),
      (''yellow'', (60, 100, 100)),
      (''green'', (120, 100, 100)),
      (''blue'', (240, 100, 100)),
      (''purple'', (270, 100, 100)),
      (''pink'', (330, 100, 100)),
      (''brown'', (30, 100, 30)),
      (''black'', (0, 0, 0)),
      (''white'', (0, 0, 100)),
      (''gray'', (0, 0, 50)),
      (''navy'', (240, 100, 25)),
      (''beige'', (30, 30, 80))]"

definition color_wheel :: "string \<Rightarrow> (int \<times> int \<times> int) option" where
  "color_wheel = map_of color_wheel_items"

text \<open>\<^verbatim>\<open>_calculate_color_pair_harmony\<close>: \<^verbatim>\<open>self.color_wheel[c]\<close> raises \<^verbatim>\<open>KeyError\<close> on a
  colour that is not in the wheel.\<close>

definition hue_score :: "int \<Rightarrow> int \<Rightarrow> rat" where
  "hue_score hue1 hue2 =
     (let hue_diff = \<bar>hue1 - hue2\<bar>;
          hue_diff = (if hue_diff > 180 then 360 - hue_diff else hue_diff)
      in if \<bar>hue_diff - 180\<bar> < 30 then 9 / 10
         else if hue_diff < 30 then 8 / 10
         else if \<bar>hue_diff - 120\<bar> < 30 then 7 / 10
         else 5 / 10)"

definition calculate_color_pair_harmony :: "string \<Rightarrow> string \<Rightarrow> py_error + rat" where
  "calculate_color_pair_harmony color1 color2 =
     (case color_wheel color1 of
        None \<Rightarrow> Inl KeyError
      | Some (hue1, _, _) \<Rightarrow>
          (case color_wheel color2 of
             None \<Rightarrow> Inl KeyError
           | Some (hue2, _, _) \<Rightarrow> Inr (hue_score hue1 hue2)))"

text \<open>The circular hue distance, and the score table as the specification words it
  (closed intervals \<open>[150,180]\<close> and \<open>[90,150]\<close>).\<close>

definition hue_distance :: "int \<Rightarrow> int \<Rightarrow> int" where
  "hue_distance h1 h2 = min \<bar>h1 - h2\<bar> (360 - \<bar>h1 - h2\<bar>)"

definition spec_pair_score :: "int \<Rightarrow> rat" where
  "spec_pair_score d =
     (if 150 \<le> d \<and> d \<le> 180 then 9 / 10
      else if d < 30 then 8 / 10
      else if 90 \<le> d \<and> d \<le> 150 then 7 / 10
      else 5 / 10)"

section \<open>Clothing items and the engine's tables\<close>

text \<open>
  A clothing item as the engine reads it: \<^verbatim>\<open>item_id\<close>, \<^verbatim>\<open>category\<close> and \<^verbatim>\<open>color\<close>
  (each \<^verbatim>\<open>None\<close> or a string) and the \<^verbatim>\<open>metadata\<close> attribute. The engine looks at the
  metadata three ways: it is missing or falsy (\<open>NoMetadata\<close>), it is truthy but not a dict
  (\<open>NotADict\<close>), or it is a non-empty dict, of which only the value under
  \<^verbatim>\<open>'formality_level'\<close> is read (\<open>MetaDict\<close>). That value is an integer, or a value that
  raises \<^verbatim>\<open>TypeError\<close> when compared with or subtracted from an integer (\<open>PyOther\<close>:
  \<^verbatim>\<open>None\<close>, a string, a list).
\<close>

datatype py_val = PyInt int | PyOther

datatype item_metadata = NoMetadata | NotADict | MetaDict "py_val option"

record ClothingItem =
  item_id :: string
  category :: "string option"
  color :: "string option"
  metadata :: item_metadata

record mood_style =
  mood_colors :: "string list"
  mood_formality :: int

definition mood_style_mapping :: "string \<Rightarrow> mood_style option" where
  "mood_style_mapping = map_of
     [(''confident'', \<lparr>mood_colors = [''red'', ''black'', ''navy''], mood_formality = 3\<rparr>),
      (''relaxed'', \<lparr>mood_colors = [''blue'', ''green'', ''gray''], mood_formality = 1\<rparr>),
      (''creative'', \<lparr>mood_colors = [''purple'', ''orange'', ''yellow''], mood_formality = 2\<rparr>),
      (''professional'', \<lparr>mood_colors = [''black'', ''navy'', ''gray''], mood_formality = 4\<rparr>),
      (''romantic'', \<lparr>mood_colors = [''pink'', ''red'', ''white''], mood_formality = 2\<rparr>),
      (''adventurous'', \<lparr>mood_colors = [''green'', ''brown'', ''orange''], mood_formality = 1\<rparr>)]"

record occasion_requirement =
  formality_min :: int
  occasion_colors :: "string list"

definition occasion_requirements :: "string \<Rightarrow> occasion_requirement option" where
  "occasion_requirements = map_of
     [(''work'', \<lparr>formality_min = 3, occasion_colors = [''navy'', ''black'', ''gray'', ''white'']\<rparr>),
      (''casual'', \<lparr>formality_min = 1, occasion_colors = [''blue'', ''green'', ''red'', ''yellow'']\<rparr>),
      (''date'', \<lparr>formality_min = 2, occasion_colors = [''black'', ''red'', ''navy'', ''white'']\<rparr>),
      (''party'', \<lparr>formality_min = 3, occasion_colors = [''black'', ''red'', ''gold'', ''silver'']\<rparr>),
      (''workout'', \<lparr>formality_min = 1, occasion_colors = [''black'', ''gray'', ''blue'', ''green'']\<rparr>),
      (''formal'', \<lparr>formality_min = 4, occasion_colors = [''black'', ''navy'', ''gray'', ''white'']\<rparr>)]"

text \<open>An entry of \<^verbatim>\<open>weather_adjustments\<close>: each key is present or not. The key
  \<^verbatim>\<open>'prefer'\<close> is the field \<open>prefer_only\<close> (\<open>prefer\<close> is a reserved word here).\<close>

record weather_adjustment =
  avoid_categories :: "string list option"
  prefer_only :: "string list option"
  prefer_categories :: "string list option"
  avoid :: "string list option"
  neutral :: "bool option"

definition no_adjustment :: weather_adjustment where
  "no_adjustment = \<lparr>avoid_categories = None, prefer_only = None, prefer_categories = None,
     avoid = None, neutral = None\<rparr>"

definition weather_adjustments :: "string \<Rightarrow> weather_adjustment option" where
  "weather_adjustments = map_of
     [(''hot'', no_adjustment\<lparr>avoid_categories := Some [''coat'', ''sweater''],
                               prefer_only := Some [''shorts'', ''tank_top'']\<rparr>),
      (''cold'', no_adjustment\<lparr>prefer_categories := Some [''coat'', ''sweater''],
                                avoid := Some [''shorts'', ''tank_top'']\<rparr>),
      (''rainy'', no_adjustment\<lparr>prefer_categories := Some [''jacket'', ''boots''],
                                 avoid := Some [''white'', ''suede'']\<rparr>),
      (''mild'', no_adjustment\<lparr>neutral := Some True\<rparr>)]"

text \<open>\<^verbatim>\<open>essential_categories\<close>, one list per key.\<close>

definition essential_tops :: "string list" where
  "essential_tops = [''shirt'', ''blouse'', ''t-shirt'', ''tank_top'', ''sweater'', ''hoodie'', ''top'']"

definition essential_bottoms :: "string list" where
  "essential_bottoms = [''pants'', ''jeans'', ''shorts'', ''skirt'', ''dress'', ''trousers'']"

definition essential_outerwear :: "string list" where
  "essential_outerwear = [''jacket'', ''coat'', ''blazer'', ''cardigan'']"

definition essential_footwear :: "string list" where
  "essential_footwear = [''shoes'', ''sneakers'', ''boots'', ''sandals'', ''heels'']"

section \<open>The filter chain\<close>

text \<open>The formality both filters read: 2 unless the metadata is a non-empty dict with a
  \<^verbatim>\<open>'formality_level'\<close> key.\<close>

definition formality_of :: "ClothingItem \<Rightarrow> py_val" where
  "formality_of item = (case metadata item of MetaDict (Some v) \<Rightarrow> v | _ \<Rightarrow> PyInt 2)"

text \<open>\<^verbatim>\<open>_filter_by_occasion\<close>. The body of the loop, per item: \<^verbatim>\<open>formality >= formality_min\<close>
  is evaluated first, and a \<^verbatim>\<open>TypeError\<close> there is caught and the item is appended.\<close>

definition occasion_keeps :: "occasion_requirement \<Rightarrow> ClothingItem \<Rightarrow> bool" where
  "occasion_keeps requirements item =
     (case formality_of item of
        PyOther \<Rightarrow> True
      | PyInt formality \<Rightarrow>
          if formality \<ge> formality_min requirements then True
          else lowered_in (color item) (occasion_colors requirements))"

definition filter_by_occasion :: "ClothingItem list \<Rightarrow> string \<Rightarrow> ClothingItem list" where
  "filter_by_occasion items occasion =
     (case occasion_requirements occasion of
        None \<Rightarrow> items
      | Some requirements \<Rightarrow>
          (let filtered = filter (occasion_keeps requirements) items
           in if filtered \<noteq> [] then filtered else items))"

text \<open>\<^verbatim>\<open>_filter_by_mood\<close>: the colour is tested first; the formality only when the colour does
  not match, and a \<^verbatim>\<open>TypeError\<close> in the subtraction is caught and the item is appended.\<close>

definition mood_keeps :: "mood_style \<Rightarrow> ClothingItem \<Rightarrow> bool" where
  "mood_keeps style item =
     (if lowered_in (color item) (mood_colors style) then True
      else (case formality_of item of
              PyOther \<Rightarrow> True
            | PyInt formality \<Rightarrow> \<bar>formality - mood_formality style\<bar> \<le> 1))"

definition filter_by_mood :: "ClothingItem list \<Rightarrow> string \<Rightarrow> ClothingItem list" where
  "filter_by_mood items mood =
     (case mood_style_mapping mood of
        None \<Rightarrow> items
      | Some style \<Rightarrow>
          (let filtered = filter (mood_keeps style) items
           in if filtered \<noteq> [] then filtered else items))"

text \<open>The weather argument: \<^verbatim>\<open>None\<close> or an empty dict (\<open>NoWeather\<close>), or a non-empty dict
  with the string under \<^verbatim>\<open>'condition'\<close> if the key is there. The condition is a string,
  as the data model has it; a value of another type, on which \<^verbatim>\<open>.lower()\<close> would raise,
  is not part of the model.\<close>

datatype weather = NoWeather | Weather "string option"

definition weather_condition :: "weather \<Rightarrow> string" where
  "weather_condition w =
     (case w of
        NoWeather \<Rightarrow> ''mild''
      | Weather None \<Rightarrow> py_lower ''mild''
      | Weather (Some c) \<Rightarrow> py_lower c)"

text \<open>\<^verbatim>\<open>_filter_by_weather\<close>. The three tests of the loop body, then one step of the loop:
  \<^verbatim>\<open>continue\<close>, \<^verbatim>\<open>filtered.insert(0, item)\<close> or \<^verbatim>\<open>filtered.append(item)\<close>.\<close>

definition key_has :: "string list option \<Rightarrow> string option \<Rightarrow> bool" where
  "key_has entry x = (case entry of None \<Rightarrow> False | Some xs \<Rightarrow> lowered_in x xs)"

definition weather_step :: "weather_adjustment \<Rightarrow> ClothingItem list \<Rightarrow> ClothingItem \<Rightarrow> ClothingItem list" where
  "weather_step adjustments filtered item =
     (if key_has (avoid_categories adjustments) (category item) then filtered
      else if key_has (avoid adjustments) (color item) then filtered
      else if key_has (prefer_categories adjustments) (category item) then item # filtered
      else filtered @ [item])"

definition filter_by_weather :: "ClothingItem list \<Rightarrow> weather \<Rightarrow> ClothingItem list" where
  "filter_by_weather items w =
     (case weather_adjustments (weather_condition w) of
        None \<Rightarrow> items
      | Some adjustments \<Rightarrow>
          if neutral adjustments = Some True then items
          else (let filtered = foldl (weather_step adjustments) [] items
                in if filtered \<noteq> [] then filtered else items))"

section \<open>The outfit assembler\<close>

record categorized =
  tops :: "ClothingItem list"
  bottoms :: "ClothingItem list"
  outerwear :: "ClothingItem list"
  footwear :: "ClothingItem list"
  accessories :: "ClothingItem list"

definition no_items :: categorized where
  "no_items = \<lparr>tops = [], bottoms = [], outerwear = [], footwear = [], accessories = []\<rparr>"

text \<open>\<^verbatim>\<open>_categorize_items\<close>: the slot name of one item, and the loop.\<close>

definition slot_key :: "ClothingItem \<Rightarrow> string" where
  "slot_key item =
     (case category item of
        None \<Rightarrow> ''accessories''
      | Some c \<Rightarrow> if c \<noteq> [] then py_lower c else ''accessories'')"

definition categorize_step :: "categorized \<Rightarrow> ClothingItem \<Rightarrow> categorized" where
  "categorize_step categories item =
     (let c = slot_key item
      in if c \<in> set essential_tops then categories\<lparr>tops := tops categories @ [item]\<rparr>
         else if c \<in> set essential_bottoms then categories\<lparr>bottoms := bottoms categories @ [item]\<rparr>
         else if c \<in> set essential_outerwear then categories\<lparr>outerwear := outerwear categories @ [item]\<rparr>
         else if c \<in> set essential_footwear then categories\<lparr>footwear := footwear categories @ [item]\<rparr>
         else categories\<lparr>accessories := accessories categories @ [item]\<rparr>)"

definition categorize_items :: "ClothingItem list \<Rightarrow> categorized" where
  "categorize_items items = foldl categorize_step no_items items"

text \<open>\<^verbatim>\<open>any(getattr(item, 'category', '').lower() == 'dress' for item in outfit)\<close>: the
  attribute exists on every item, so a \<^verbatim>\<open>None\<close> category raises \<^verbatim>\<open>AttributeError\<close>.\<close>

fun has_dress :: "ClothingItem list \<Rightarrow> py_error + bool" where
  "has_dress [] = Inr False"
| "has_dress (item # rest) =
     (case category item of
        None \<Rightarrow> Inl AttributeError
      | Some c \<Rightarrow> if py_lower c = ''dress'' then Inr True else has_dress rest)"

text \<open>\<^verbatim>\<open>_build_complete_outfit\<close>.\<close>

definition build_complete_outfit :: "categorized \<Rightarrow> string \<Rightarrow> string \<Rightarrow> py_error + ClothingItem list" where
  "build_complete_outfit categorized_items mood occasion =
     (let outfit = [];
          outfit = (if tops categorized_items \<noteq> [] then outfit @ [hd (tops categorized_items)]
                    else outfit)
      in case (if bottoms categorized_items \<noteq> []
               then (case has_dress outfit of
                       Inl e \<Rightarrow> Inl e
                     | Inr dress \<Rightarrow>
                         Inr (if \<not> dress then outfit @ [hd (bottoms categorized_items)]
                              else outfit))
               else Inr outfit) of
           Inl e \<Rightarrow> Inl e
         | Inr outfit \<Rightarrow>
             (let outfit = (if occasion \<in> set [''work'', ''formal'', ''date'']
                               \<and> outerwear categorized_items \<noteq> []
                            then outfit @ [hd (outerwear categorized_items)] else outfit);
                  outfit = (if footwear categorized_items \<noteq> []
                            then outfit @ [hd (footwear categorized_items)] else outfit);
                  outfit = (if accessories categorized_items \<noteq> [] \<and> length outfit < 4
                            then outfit @ [hd (accessories categorized_items)] else outfit)
              in Inr outfit))"

section \<open>Candidate outfits\<close>

text \<open>
  The dict built for each selected item. A dict made by this module always has the key
  \<^verbatim>\<open>'item_id'\<close>; the deduplicator reads it from whatever candidates it is handed, so
  the key is optional here. Of the nested \<^verbatim>\<open>'metadata'\<close> dict only \<^verbatim>\<open>'formality_level'\<close>
  is kept; \<^verbatim>\<open>'image_url'\<close> plays no part in any decision and is left out.
\<close>

record item_dict =
  d_item_id :: "string option"
  d_category :: string
  d_color :: string
  d_formality_level :: py_val

text \<open>
  A candidate dict. \<^verbatim>\<open>'items'\<close>, \<^verbatim>\<open>'confidence_score'\<close>, \<^verbatim>\<open>'recommendation_method'\<close>,
  \<^verbatim>\<open>'attempt_number'\<close> and \<^verbatim>\<open>'final_score'\<close> are keys that may be absent. The
  \<^verbatim>\<open>'outfit_id'\<close> and \<^verbatim>\<open>'created_at'\<close> (built from the clock and a random number) and the
  \<^verbatim>\<open>'style_description'\<close> sentence are left out.
\<close>

record outfit =
  rec_items :: "item_dict list option"
  rec_mood :: string
  rec_occasion :: string
  confidence_score :: "rat option"
  color_harmony :: bool
  weather_appropriate :: bool
  recommendation_method :: "string option"
  attempt_number :: "int option"
  final_score :: "rat option"

text \<open>Step 4 of \<^verbatim>\<open>_create_outfit_recommendation\<close>: one item as a dict.\<close>

definition item_to_dict :: "ClothingItem \<Rightarrow> item_dict" where
  "item_to_dict item =
     \<lparr>d_item_id = Some (item_id item),
      d_category = py_str (category item),
      d_color = py_str (color item),
      d_formality_level =
        (case metadata item of
           NoMetadata \<Rightarrow> PyInt 2
         | NotADict \<Rightarrow> PyInt 2
         | MetaDict v \<Rightarrow> (case v of None \<Rightarrow> PyInt 2 | Some f \<Rightarrow> f))\<rparr>"

text \<open>\<^verbatim>\<open>_colors_coordinate\<close>.\<close>

definition neutral_colors :: "string list" where
  "neutral_colors = [''black'', ''white'', ''gray'', ''grey'', ''navy'', ''beige'', ''brown'']"

definition colors_coordinate :: "string list \<Rightarrow> bool" where
  "colors_coordinate colors =
     (if colors = [] then True
      else (let neutral_count = length (filter (\<lambda>c. py_lower c \<in> set neutral_colors) colors)
            in if neutral_count = length colors then True
               else int (length colors) - int neutral_count \<le> 1))"

text \<open>\<^verbatim>\<open>_calculate_confidence_score\<close>: \<^verbatim>\<open>base_score\<close> is updated in three steps.
  \<^verbatim>\<open>len(set(...))\<close> is the number of distinct category strings.\<close>

definition calculate_confidence_score :: "item_dict list \<Rightarrow> string \<Rightarrow> string \<Rightarrow> rat" where
  "calculate_confidence_score outfit_items mood occasion =
     (if outfit_items = [] then 0
      else (let base_score = 6 / 10;
                categories = remdups (map d_category outfit_items);
                base_score = (if length categories \<ge> 2 then base_score + 1 / 10 else base_score);
                base_score = (if length categories \<ge> 3 then base_score + 1 / 10 else base_score);
                colors = map d_color outfit_items;
                base_score = (if colors_coordinate colors then base_score + 1 / 10 else base_score)
            in min base_score 1))"

text \<open>\<^verbatim>\<open>_assess_color_harmony\<close>: only truthy colours, lower-cased.\<close>

definition assess_color_harmony :: "item_dict list \<Rightarrow> bool" where
  "assess_color_harmony outfit_items =
     (if outfit_items = [] then True
      else colors_coordinate (map py_lower (filter (\<lambda>c. c \<noteq> []) (map d_color outfit_items))))"

text \<open>The three filters of step 1, each result taken only when it is non-empty, and the
  dead guard after them.\<close>

definition filter_chain :: "ClothingItem list \<Rightarrow> string \<Rightarrow> string \<Rightarrow> weather \<Rightarrow> ClothingItem list" where
  "filter_chain clothing_items mood occasion w =
     (let current_items = clothing_items;
          occasion_filtered = filter_by_occasion current_items occasion;
          current_items = (if occasion_filtered \<noteq> [] then occasion_filtered else current_items);
          mood_filtered = filter_by_mood current_items mood;
          current_items = (if mood_filtered \<noteq> [] then mood_filtered else current_items);
          weather_filtered = filter_by_weather current_items w;
          current_items = (if weather_filtered \<noteq> [] then weather_filtered else current_items)
      in if current_items = [] then clothing_items else current_items)"

text \<open>\<^verbatim>\<open>_create_outfit_recommendation\<close>. An exception inside its \<^verbatim>\<open>try\<close> gives \<^verbatim>\<open>None\<close>.
  The user preferences are passed in and never read.\<close>

definition create_outfit_recommendation ::
  "ClothingItem list \<Rightarrow> string \<Rightarrow> string \<Rightarrow> weather \<Rightarrow> outfit option" where
  "create_outfit_recommendation clothing_items mood occasion w =
     (if clothing_items = [] then None
      else (let current_items = filter_chain clothing_items mood occasion w;
                categorized_items = categorize_items current_items
            in case build_complete_outfit categorized_items mood occasion of
                 Inl e \<Rightarrow> None
               | Inr outfit_items \<Rightarrow>
                   (let outfit_items =
                          (if outfit_items = []
                           then take (min 3 (length current_items)) current_items
                           else outfit_items);
                        selected_items = map item_to_dict outfit_items
                    in if selected_items = [] then None
                       else Some \<lparr>rec_items = Some selected_items,
                                  rec_mood = mood,
                                  rec_occasion = occasion,
                                  confidence_score =
                                    Some (calculate_confidence_score selected_items mood occasion),
                                  color_harmony = assess_color_harmony selected_items,
                                  weather_appropriate = True,
                                  recommendation_method = None,
                                  attempt_number = None,
                                  final_score = None\<rparr>)))"

text \<open>\<^verbatim>\<open>_create_emergency_recommendation\<close>.\<close>

definition emergency_dict :: "ClothingItem \<Rightarrow> item_dict" where
  "emergency_dict item =
     \<lparr>d_item_id = Some (item_id item),
      d_category = py_str (category item),
      d_color = py_str (color item),
      d_formality_level = PyInt 2\<rparr>"

definition create_emergency_recommendation :: "ClothingItem list \<Rightarrow> string \<Rightarrow> string \<Rightarrow> outfit option" where
  "create_emergency_recommendation clothing_items mood occasion =
     (if clothing_items = [] then None
      else Some \<lparr>rec_items = Some (map emergency_dict (take 3 clothing_items)),
                 rec_mood = mood,
                 rec_occasion = occasion,
                 confidence_score = Some (5 / 10),
                 color_harmony = True,
                 weather_appropriate = True,
                 recommendation_method = Some ''emergency_fallback'',
                 attempt_number = None,
                 final_score = None\<rparr>)"

section \<open>The orchestrator\<close>

text \<open>
  \<^verbatim>\<open>_generate_rule_based_recommendations\<close>. \<^verbatim>\<open>random.shuffle\<close> is a parameter: \<open>shuffle k\<close>
  is the reordering drawn at attempt \<open>k\<close>. The loop runs over \<^verbatim>\<open>range(num * 2)\<close> and
  breaks once \<^verbatim>\<open>num\<close> candidates are collected.
\<close>

fun rule_based_loop ::
  "(nat \<Rightarrow> ClothingItem list \<Rightarrow> ClothingItem list) \<Rightarrow> ClothingItem list \<Rightarrow> string \<Rightarrow> string \<Rightarrow>
   weather \<Rightarrow> int \<Rightarrow> nat list \<Rightarrow> outfit list \<Rightarrow> outfit list" where
  "rule_based_loop shuffle user_clothes mood occasion w num [] recommendations = recommendations"
| "rule_based_loop shuffle user_clothes mood occasion w num (attempt # rest) recommendations =
     (case create_outfit_recommendation (shuffle attempt user_clothes) mood occasion w of
        None \<Rightarrow> rule_based_loop shuffle user_clothes mood occasion w num rest recommendations
      | Some out \<Rightarrow>
          (let recommendations = recommendations @
                 [out\<lparr>recommendation_method := Some ''rule_based'',
                      attempt_number := Some (int attempt + 1)\<rparr>]
           in if int (length recommendations) \<ge> num then recommendations
              else rule_based_loop shuffle user_clothes mood occasion w num rest recommendations))"

definition generate_rule_based_recommendations ::
  "(nat \<Rightarrow> ClothingItem list \<Rightarrow> ClothingItem list) \<Rightarrow> ClothingItem list \<Rightarrow> string \<Rightarrow> string \<Rightarrow>
   weather \<Rightarrow> int \<Rightarrow> outfit list" where
  "generate_rule_based_recommendations shuffle user_clothes mood occasion w num =
     rule_based_loop shuffle user_clothes mood occasion w num [0..<nat (num * 2)] []"

text \<open>\<^verbatim>\<open>_deduplicate_recommendations\<close>. The signature raises \<^verbatim>\<open>KeyError\<close> when \<^verbatim>\<open>'items'\<close> or
  an \<^verbatim>\<open>'item_id'\<close> is missing; the loop catches it and keeps the candidate.\<close>

definition combo_signature :: "outfit \<Rightarrow> string list option" where
  "combo_signature r =
     (case rec_items r of
        None \<Rightarrow> None
      | Some its \<Rightarrow> map_option sort (those (map d_item_id its)))"

fun dedup_loop :: "string list set \<Rightarrow> outfit list \<Rightarrow> outfit list" where
  "dedup_loop seen_combinations [] = []"
| "dedup_loop seen_combinations (r # rest) =
     (case combo_signature r of
        None \<Rightarrow> r # dedup_loop seen_combinations rest
      | Some sig \<Rightarrow>
          if sig \<notin> seen_combinations
          then r # dedup_loop (insert sig seen_combinations) rest
          else dedup_loop seen_combinations rest)"

definition deduplicate_recommendations :: "outfit list \<Rightarrow> outfit list" where
  "deduplicate_recommendations recommendations = dedup_loop {} recommendations"

text \<open>\<^verbatim>\<open>_score_recommendations\<close>. The preferences are the value under
  \<^verbatim>\<open>'preferred_colors'\<close>, if the dict is non-empty and has the key. \<^verbatim>\<open>rec['items']\<close> is read
  only then, and raises \<^verbatim>\<open>KeyError\<close> when the key is missing. The sort is Python's stable
  sort with \<^verbatim>\<open>reverse=True\<close>: descending, equal scores in input order.\<close>

definition score_one :: "string list option \<Rightarrow> outfit \<Rightarrow> py_error + outfit" where
  "score_one preferred r =
     (let base_score = (case confidence_score r of None \<Rightarrow> 5 / 10 | Some c \<Rightarrow> c)
      in case (case preferred of
                 None \<Rightarrow> Inr base_score
               | Some preferred_colors \<Rightarrow>
                   (case rec_items r of
                      None \<Rightarrow> Inl KeyError
                    | Some its \<Rightarrow>
                        (let outfit_colors = map (\<lambda>it. py_lower (d_color it)) its
                         in Inr (if list_ex (\<lambda>c. c \<in> set preferred_colors) outfit_colors
                                 then base_score + 1 / 10 else base_score)))) of
           Inl e \<Rightarrow> Inl e
         | Inr base_score \<Rightarrow>
             (let base_score = (if recommendation_method r = Some ''ai_enhanced''
                                then base_score + 5 / 100 else base_score)
              in Inr (r\<lparr>final_score := Some (min base_score 1)\<rparr>)))"

fun score_all :: "string list option \<Rightarrow> outfit list \<Rightarrow> py_error + outfit list" where
  "score_all preferred [] = Inr []"
| "score_all preferred (r # rest) =
     (case score_one preferred r of
        Inl e \<Rightarrow> Inl e
      | Inr r' \<Rightarrow> (case score_all preferred rest of Inl e \<Rightarrow> Inl e | Inr rest' \<Rightarrow> Inr (r' # rest')))"

definition final_key :: "outfit \<Rightarrow> rat" where
  "final_key r = (case final_score r of None \<Rightarrow> 0 | Some s \<Rightarrow> s)"

definition score_recommendations :: "outfit list \<Rightarrow> string list option \<Rightarrow> py_error + outfit list" where
  "score_recommendations recommendations preferred =
     (case score_all preferred recommendations of
        Inl e \<Rightarrow> Inl e
      | Inr scored \<Rightarrow> Inr (sort_key (\<lambda>r. - final_key r) scored))"

text \<open>
  \<^verbatim>\<open>generate_outfit_recommendations\<close>. The database is the result of the item query:
  the rows, or the exception it raised, which \<^verbatim>\<open>_get_user_clothing\<close> turns into no items.
  The model-based branch is guarded by \<^verbatim>\<open>ML_AVAILABLE and self.ai_models\<close>; the dict
  \<^verbatim>\<open>ai_models\<close> is never filled, so the branch is never taken. Of the logging statements
  only the last can raise: it reads \<^verbatim>\<open>rec['items']\<close> of every candidate about to be
  returned. \<open>generate_try\<close> is the body of the \<^verbatim>\<open>try\<close>, the function itself adds the
  \<^verbatim>\<open>except\<close>, which queries the items again; the second query is taken to give what
  the first gave.
\<close>

definition get_user_clothing :: "py_error + ClothingItem list \<Rightarrow> ClothingItem list" where
  "get_user_clothing db = (case db of Inl e \<Rightarrow> [] | Inr rows \<Rightarrow> rows)"

definition generate_try ::
  "py_error + ClothingItem list \<Rightarrow> string list option \<Rightarrow>
   (nat \<Rightarrow> ClothingItem list \<Rightarrow> ClothingItem list) \<Rightarrow> string \<Rightarrow> string \<Rightarrow> weather \<Rightarrow> int \<Rightarrow>
   py_error + outfit list" where
  "generate_try db preferred shuffle mood occasion w num_recommendations =
     (let user_clothes = get_user_clothing db
      in if user_clothes = [] then Inr []
         else (let recommendations =
                     generate_rule_based_recommendations shuffle user_clothes mood occasion w
                       num_recommendations;
                   recommendations =
                     (if recommendations = []
                      then (case create_emergency_recommendation user_clothes mood occasion of
                              None \<Rightarrow> recommendations
                            | Some emergency_rec \<Rightarrow> [emergency_rec])
                      else recommendations);
                   unique_recommendations = deduplicate_recommendations recommendations
               in case score_recommendations unique_recommendations preferred of
                    Inl e \<Rightarrow> Inl e
                  | Inr scored_recommendations \<Rightarrow>
                      (let final_recommendations =
                             py_take num_recommendations scored_recommendations
                       in if list_all (\<lambda>r. rec_items r \<noteq> None) final_recommendations
                          then Inr final_recommendations
                          else Inl KeyError)))"

definition generate_outfit_recommendations ::
  "py_error + ClothingItem list \<Rightarrow> string list option \<Rightarrow>
   (nat \<Rightarrow> ClothingItem list \<Rightarrow> ClothingItem list) \<Rightarrow> string \<Rightarrow> string \<Rightarrow> weather \<Rightarrow> int \<Rightarrow>
   outfit list" where
  "generate_outfit_recommendations db preferred shuffle mood occasion w num_recommendations =
     (case generate_try db preferred shuffle mood occasion w num_recommendations of
        Inr final_recommendations \<Rightarrow> final_recommendations
      | Inl e \<Rightarrow>
          (let user_clothes = get_user_clothing db
           in if user_clothes \<noteq> []
              then (case create_emergency_recommendation user_clothes mood occasion of
                      None \<Rightarrow> []
                    | Some emergency_rec \<Rightarrow> [emergency_rec])
              else []))"

section \<open>Auxiliary notions used in the statements\<close>

text \<open>The items the weather loop does not skip under an entry.\<close>

definition weather_kept :: "weather_adjustment \<Rightarrow> ClothingItem list \<Rightarrow> ClothingItem list" where
  "weather_kept adj items =
     filter (\<lambda>i. \<not> key_has (avoid_categories adj) (category i) \<and>
                 \<not> key_has (avoid adj) (color i)) items"

text \<open>The tests of the categorizer's \<^verbatim>\<open>if\<close>/\<^verbatim>\<open>elif\<close> chain, one per slot.\<close>

definition is_top :: "ClothingItem \<Rightarrow> bool" where
  "is_top i = (slot_key i \<in> set essential_tops)"

definition is_bottom :: "ClothingItem \<Rightarrow> bool" where
  "is_bottom i = (slot_key i \<notin> set essential_tops \<and> slot_key i \<in> set essential_bottoms)"

definition is_outerwear :: "ClothingItem \<Rightarrow> bool" where
  "is_outerwear i = (slot_key i \<notin> set essential_tops \<and> slot_key i \<notin> set essential_bottoms \<and>
     slot_key i \<in> set essential_outerwear)"

definition is_footwear :: "ClothingItem \<Rightarrow> bool" where
  "is_footwear i = (slot_key i \<notin> set essential_tops \<and> slot_key i \<notin> set essential_bottoms \<and>
     slot_key i \<notin> set essential_outerwear \<and> slot_key i \<in> set essential_footwear)"

definition is_accessory :: "ClothingItem \<Rightarrow> bool" where
  "is_accessory i = (slot_key i \<notin> set essential_tops \<and> slot_key i \<notin> set essential_bottoms \<and>
     slot_key i \<notin> set essential_outerwear \<and> slot_key i \<notin> set essential_footwear)"

text \<open>The coordinate predicate as the specification words it: all colours neutral, or at
  most one non-neutral colour in the list.\<close>

definition spec_coordinate :: "string list \<Rightarrow> bool" where
  "spec_coordinate colors =
     (list_all (\<lambda>c. py_lower c \<in> set neutral_colors) colors \<or>
      length (filter (\<lambda>c. py_lower c \<notin> set neutral_colors) colors) \<le> 1)"

text \<open>What the scorer needs of a candidate, and what it guarantees of a ranked one.\<close>

definition confidence_in_range :: "outfit \<Rightarrow> bool" where
  "confidence_in_range r =
     (rec_items r \<noteq> None \<and>
      (case confidence_score r of None \<Rightarrow> False | Some c \<Rightarrow> 0 \<le> c \<and> c \<le> 1))"

definition scores_in_range :: "outfit \<Rightarrow> bool" where
  "scores_in_range r =
     (rec_items r \<noteq> None \<and>
      (case confidence_score r of
         None \<Rightarrow> False
       | Some c \<Rightarrow>
           (case final_score r of
              None \<Rightarrow> False
            | Some f \<Rightarrow> 0 \<le> c \<and> c \<le> 1 \<and> 0 \<le> f \<and> f \<le> 1)))"

text \<open>A candidate made by the rule-based path: it has at least one item, and its confidence
  is the score of its items.\<close>

definition rule_based_candidate :: "outfit \<Rightarrow> bool" where
  "rule_based_candidate r =
     (case rec_items r of
        None \<Rightarrow> False
      | Some its \<Rightarrow>
          its \<noteq> [] \<and>
          confidence_score r = Some (calculate_confidence_score its (rec_mood r) (rec_occasion r)))"

text \<open>Deduplication as the specification words it: a candidate is kept when its signature
  cannot be computed, or when no earlier candidate of the input has the same signature; the
  kept candidates stay in input order.\<close>

definition first_occurrences :: "outfit list \<Rightarrow> outfit list" where
  "first_occurrences recs =
     map (\<lambda>i. recs ! i)
       (filter (\<lambda>i. combo_signature (recs ! i) = None \<or>
                    combo_signature (recs ! i) \<notin> set (map combo_signature (take i recs)))
          [0..<length recs])"

section \<open>A sample wardrobe\<close>

text \<open>Concrete items on which the statements below are evaluated.\<close>

definition red_coat :: ClothingItem where
  "red_coat = \<lparr>item_id = ''c1'', category = Some ''Coat'', color = Some ''Red'',
     metadata = NoMetadata\<rparr>"

definition blue_shirt :: ClothingItem where
  "blue_shirt = \<lparr>item_id = ''s1'', category = Some ''shirt'', color = Some ''blue'',
     metadata = MetaDict (Some (PyInt 2))\<rparr>"

definition blue_shorts :: ClothingItem where
  "blue_shorts = \<lparr>item_id = ''s3'', category = Some ''shorts'', color = Some ''blue'',
     metadata = NoMetadata\<rparr>"

definition white_jacket :: ClothingItem where
  "white_jacket = \<lparr>item_id = ''j1'', category = Some ''jacket'', color = Some ''White'',
     metadata = NotADict\<rparr>"

definition red_jacket :: ClothingItem where
  "red_jacket = \<lparr>item_id = ''j2'', category = Some ''jacket'', color = Some ''red'',
     metadata = NoMetadata\<rparr>"

definition black_jacket :: ClothingItem where
  "black_jacket = \<lparr>item_id = ''j3'', category = Some ''jacket'', color = Some ''black'',
     metadata = NoMetadata\<rparr>"

definition black_boots :: ClothingItem where
  "black_boots = \<lparr>item_id = ''b1'', category = Some ''boots'', color = Some ''black'',
     metadata = NoMetadata\<rparr>"

text \<open>Candidates for the deduplicator: one with the given item ids, one with no
  \<^verbatim>\<open>'items'\<close> key, one with an item that has no \<^verbatim>\<open>'item_id'\<close>.\<close>

definition candidate_with :: "item_dict list option \<Rightarrow> outfit" where
  "candidate_with its =
     \<lparr>rec_items = its, rec_mood = ''relaxed'', rec_occasion = ''casual'',
      confidence_score = Some (7 / 10), color_harmony = True, weather_appropriate = True,
      recommendation_method = Some ''rule_based'', attempt_number = None, final_score = None\<rparr>"

definition dict_with_id :: "string option \<Rightarrow> item_dict" where
  "dict_with_id i =
     \<lparr>d_item_id = i, d_category = ''shirt'', d_color = ''blue'', d_formality_level = PyInt 2\<rparr>"

definition outfit_ab :: outfit where
  "outfit_ab = candidate_with (Some [dict_with_id (Some ''b''), dict_with_id (Some ''a'')])"

definition outfit_ba :: outfit where
  "outfit_ba = (candidate_with (Some [dict_with_id (Some ''a''), dict_with_id (Some ''b'')]))
     \<lparr>rec_mood := ''creative''\<rparr>"

definition outfit_c :: outfit where
  "outfit_c = candidate_with (Some [dict_with_id (Some ''c'')])"

definition outfit_no_items :: outfit where
  "outfit_no_items = candidate_with None"

definition outfit_no_id :: outfit where
  "outfit_no_id = candidate_with (Some [dict_with_id (Some ''a''), dict_with_id None])"

text \<open>The items of the work scenario: black, with a given id, category and formality. The
  scenario's top, bottom and shoes have formality 3, 3 and 2.\<close>

definition scenario_item :: "string \<Rightarrow> string \<Rightarrow> int \<Rightarrow> ClothingItem" where
  "scenario_item i c f = \<lparr>item_id = i, category = Some c, color = Some ''black'',
     metadata = MetaDict (Some (PyInt f))\<rparr>"

definition scenario_items :: "string \<Rightarrow> string \<Rightarrow> string \<Rightarrow> ClothingItem list" where
  "scenario_items t b s =
     [scenario_item ''1'' t 3, scenario_item ''2'' b 3, scenario_item ''3'' s 2]"

section \<open>Properties of the colour analyser\<close>

lemma color_wheel_hue_range:
  assumes "color_wheel c = Some (h, s, v)"
  shows "0 \<le> h \<and> h < 360"
proof -
  from assms have "(c, (h, s, v)) \<in> set color_wheel_items"
    unfolding color_wheel_def by (rule map_of_SomeD)
  then show ?thesis
    unfolding color_wheel_items_def by auto
qed

lemma hue_score_by_distance:
  assumes "0 \<le> h1" "h1 < 360" "0 \<le> h2" "h2 < 360"
  shows "hue_score h1 h2 =
           (let d = hue_distance h1 h2
            in if 150 < d then 9 / 10
               else if d < 30 then 8 / 10
               else if 90 < d \<and> d < 150 then 7 / 10
               else 5 / 10)"
  using assms unfolding hue_score_def hue_distance_def Let_def
  by (auto simp: min_def abs_if)

lemma hue_distance_range:
  assumes "0 \<le> h1" "h1 < 360" "0 \<le> h2" "h2 < 360"
  shows "0 \<le> hue_distance h1 h2 \<and> hue_distance h1 h2 \<le> 180"
  using assms unfolding hue_distance_def by (auto simp: min_def abs_if)

text \<open>C2 (as amended): for two colours of the wheel the score is a function of the circular
  hue distance \<open>d\<close>, which lies in \<open>[0,180]\<close>: 0.9 when \<open>150 < d\<close>, 0.8 when \<open>d < 30\<close>,
  0.7 when \<open>90 < d < 150\<close>, and 0.5 otherwise; the bounds 90 and 150 themselves score 0.5.\<close>

theorem pair_harmony_by_distance:
  assumes "color_wheel color1 = Some (h1, s1, v1)"
    and "color_wheel color2 = Some (h2, s2, v2)"
  shows "0 \<le> hue_distance h1 h2 \<and> hue_distance h1 h2 \<le> 180 \<and>
         calculate_color_pair_harmony color1 color2 =
           Inr (let d = hue_distance h1 h2
                in if 150 < d then 9 / 10
                   else if d < 30 then 8 / 10
                   else if 90 < d \<and> d < 150 then 7 / 10
                   else 5 / 10)"
proof -
  have r1: "0 \<le> h1 \<and> h1 < 360" using assms(1) by (rule color_wheel_hue_range)
  have r2: "0 \<le> h2 \<and> h2 < 360" using assms(2) by (rule color_wheel_hue_range)
  have "calculate_color_pair_harmony color1 color2 = Inr (hue_score h1 h2)"
    unfolding calculate_color_pair_harmony_def using assms by simp
  with r1 r2 show ?thesis
    by (simp add: hue_score_by_distance hue_distance_range)
qed

text \<open>Witness for C2: red (hue 0) and blue (hue 240) are 120 degrees apart and score 0.7.\<close>

theorem pair_harmony_by_distance_witness:
  "color_wheel ''red'' = Some (0, 100, 100) \<and> color_wheel ''blue'' = Some (240, 100, 100) \<and>
   hue_distance 0 240 = 120 \<and>
   calculate_color_pair_harmony ''red'' ''blue'' = Inr (7 / 10)"
proof -
  have a: "color_wheel ''red'' = Some (0, 100, 100)"
    by (simp add: color_wheel_def color_wheel_items_def)
  have b: "color_wheel ''blue'' = Some (240, 100, 100)"
    by (simp add: color_wheel_def color_wheel_items_def)
  have d: "hue_distance 0 240 = 120" by (simp add: hue_distance_def)
  from pair_harmony_by_distance [OF a b] d a b show ?thesis by simp
qed

text \<open>Counterexample to C2 as stated: green (hue 120) and purple (hue 270) are exactly 150
  degrees apart; the closed interval \<open>[150,180]\<close> of the claim gives 0.9, the code gives 0.5.\<close>

theorem pair_harmony_closed_bounds_counterexample:
  "color_wheel ''green'' = Some (120, 100, 100) \<and>
   color_wheel ''purple'' = Some (270, 100, 100) \<and>
   hue_distance 120 270 = 150 \<and>
   spec_pair_score (hue_distance 120 270) = 9 / 10 \<and>
   calculate_color_pair_harmony ''green'' ''purple'' = Inr (5 / 10) \<and>
   calculate_color_pair_harmony ''green'' ''purple'' \<noteq>
     Inr (spec_pair_score (hue_distance 120 270))"
  by (simp add: calculate_color_pair_harmony_def color_wheel_def color_wheel_items_def
        hue_score_def hue_distance_def spec_pair_score_def)

section \<open>Properties of the filter chain\<close>

lemma filter_by_occasion_nonempty: "items \<noteq> [] \<Longrightarrow> filter_by_occasion items occasion \<noteq> []"
  by (simp add: filter_by_occasion_def Let_def split: option.splits)

lemma filter_by_mood_nonempty: "items \<noteq> [] \<Longrightarrow> filter_by_mood items mood \<noteq> []"
  by (simp add: filter_by_mood_def Let_def split: option.splits)

lemma filter_by_weather_nonempty: "items \<noteq> [] \<Longrightarrow> filter_by_weather items w \<noteq> []"
  by (simp add: filter_by_weather_def Let_def split: option.splits)

text \<open>C1: on a non-empty item list each of the three filters returns a non-empty list, for
  every occasion, mood and weather; and when the filter's own loop keeps no item (the key is
  in the table and every item fails the criterion), the filter returns its input unchanged.\<close>

theorem filters_fail_soft:
  assumes "items \<noteq> []"
  shows "filter_by_occasion items occasion \<noteq> [] \<and>
         filter_by_mood items mood \<noteq> [] \<and>
         filter_by_weather items w \<noteq> [] \<and>
         (\<forall>requirements. occasion_requirements occasion = Some requirements \<longrightarrow>
            filter (occasion_keeps requirements) items = [] \<longrightarrow>
            filter_by_occasion items occasion = items) \<and>
         (\<forall>style. mood_style_mapping mood = Some style \<longrightarrow>
            filter (mood_keeps style) items = [] \<longrightarrow>
            filter_by_mood items mood = items) \<and>
         (\<forall>adjustments. weather_adjustments (weather_condition w) = Some adjustments \<longrightarrow>
            foldl (weather_step adjustments) [] items = [] \<longrightarrow>
            filter_by_weather items w = items)"
proof -
  have occ: "filter_by_occasion items occasion = items"
    if "occasion_requirements occasion = Some requirements"
      and "filter (occasion_keeps requirements) items = []" for requirements
    using that by (simp add: filter_by_occasion_def)
  have md: "filter_by_mood items mood = items"
    if "mood_style_mapping mood = Some style" and "filter (mood_keeps style) items = []" for style
    using that by (simp add: filter_by_mood_def)
  have wt: "filter_by_weather items w = items"
    if "weather_adjustments (weather_condition w) = Some adjustments"
      and "foldl (weather_step adjustments) [] items = []" for adjustments
    using that by (simp add: filter_by_weather_def)
  from assms occ md wt show ?thesis
    by (simp add: filter_by_occasion_nonempty filter_by_mood_nonempty filter_by_weather_nonempty)
qed

text \<open>Witness for C1: a red coat of default formality fails the criterion of the occasion
  \<^verbatim>\<open>formal\<close>, of the mood \<^verbatim>\<open>professional\<close> and of the weather \<^verbatim>\<open>hot\<close>; each filter hands the
  one-item list back.\<close>

theorem filters_fail_soft_witness:
  "[red_coat] \<noteq> [] \<and>
   filter (occasion_keeps
     \<lparr>formality_min = 4, occasion_colors = [''black'', ''navy'', ''gray'', ''white'']\<rparr>)
     [red_coat] = [] \<and>
   filter_by_occasion [red_coat] ''formal'' = [red_coat] \<and>
   filter (mood_keeps \<lparr>mood_colors = [''black'', ''navy'', ''gray''], mood_formality = 4\<rparr>)
     [red_coat] = [] \<and>
   filter_by_mood [red_coat] ''professional'' = [red_coat] \<and>
   filter_by_weather [red_coat] (Weather (Some ''hot'')) = [red_coat]"
proof -
  let ?req = "\<lparr>formality_min = 4, occasion_colors = [''black'', ''navy'', ''gray'', ''white'']\<rparr>"
  let ?style = "\<lparr>mood_colors = [''black'', ''navy'', ''gray''], mood_formality = 4\<rparr>"
  let ?adj = "no_adjustment\<lparr>avoid_categories := Some [''coat'', ''sweater''],
                prefer_only := Some [''shorts'', ''tank_top'']\<rparr>"
  have ne: "[red_coat] \<noteq> []" by simp
  have o1: "occasion_requirements ''formal'' = Some ?req"
    by (simp add: occasion_requirements_def)
  have o2: "filter (occasion_keeps ?req) [red_coat] = []"
    by (simp add: occasion_keeps_def formality_of_def red_coat_def lowered_in_def py_lower_def)
  have m1: "mood_style_mapping ''professional'' = Some ?style"
    by (simp add: mood_style_mapping_def)
  have m2: "filter (mood_keeps ?style) [red_coat] = []"
    by (simp add: mood_keeps_def formality_of_def red_coat_def lowered_in_def py_lower_def)
  have w1: "weather_adjustments (weather_condition (Weather (Some ''hot''))) = Some ?adj"
    by (simp add: weather_adjustments_def weather_condition_def py_lower_def)
  have w2: "foldl (weather_step ?adj) [] [red_coat] = []"
    by (simp add: weather_step_def key_has_def no_adjustment_def red_coat_def lowered_in_def
          py_lower_def)
  note fs = filters_fail_soft [OF ne, of "''formal''" "''professional''" "Weather (Some ''hot'')"]
  from fs o1 o2 have "filter_by_occasion [red_coat] ''formal'' = [red_coat]" by blast
  moreover from fs m1 m2 have "filter_by_mood [red_coat] ''professional'' = [red_coat]" by blast
  moreover from fs w1 w2 have "filter_by_weather [red_coat] (Weather (Some ''hot'')) = [red_coat]"
    by blast
  ultimately show ?thesis using o2 m2 by simp
qed

text \<open>The weather loop, in closed form: the kept items whose category is preferred come
  first, last inserted first, then the accumulator, then the other kept items in order.\<close>

lemma weather_loop_shape:
  "foldl (weather_step adj) acc items =
     rev (filter (\<lambda>i. key_has (prefer_categories adj) (category i)) (weather_kept adj items))
     @ acc @
     filter (\<lambda>i. \<not> key_has (prefer_categories adj) (category i)) (weather_kept adj items)"
  unfolding weather_kept_def
  by (induction items arbitrary: acc) (auto simp: weather_step_def)

lemma split_by_empty: "filter P xs = [] \<and> filter (\<lambda>x. \<not> P x) xs = [] \<longleftrightarrow> xs = []"
  by (induction xs) auto

lemma filter_by_weather_entry:
  assumes "weather_adjustments (weather_condition w) = Some adj"
    and "neutral adj \<noteq> Some True"
  shows "filter_by_weather items w =
     (let kept = weather_kept adj items
      in if kept = [] then items
         else rev (filter (\<lambda>i. key_has (prefer_categories adj) (category i)) kept) @
              filter (\<lambda>i. \<not> key_has (prefer_categories adj) (category i)) kept)"
proof -
  define kept where "kept = weather_kept adj items"
  have loop: "foldl (weather_step adj) [] items =
      rev (filter (\<lambda>i. key_has (prefer_categories adj) (category i)) kept) @
      filter (\<lambda>i. \<not> key_has (prefer_categories adj) (category i)) kept"
    unfolding kept_def by (simp add: weather_loop_shape)
  have "foldl (weather_step adj) [] items = [] \<longleftrightarrow> kept = []"
    unfolding loop using split_by_empty [of "\<lambda>i. key_has (prefer_categories adj) (category i)" kept]
    by simp
  then show ?thesis
    using assms loop unfolding filter_by_weather_def Let_def kept_def [symmetric]
    by simp
qed

lemma weather_hot:
  assumes "weather_condition w = ''hot''"
  shows "filter_by_weather items w =
     (let kept = filter (\<lambda>i. \<not> lowered_in (category i) [''coat'', ''sweater'']) items
      in if kept = [] then items else kept)"
proof -
  let ?adj = "no_adjustment\<lparr>avoid_categories := Some [''coat'', ''sweater''],
                prefer_only := Some [''shorts'', ''tank_top'']\<rparr>"
  have e: "weather_adjustments (weather_condition w) = Some ?adj"
    using assms by (simp add: weather_adjustments_def)
  have n: "neutral ?adj \<noteq> Some True" by (simp add: no_adjustment_def)
  show ?thesis
    unfolding filter_by_weather_entry [OF e n]
    by (simp add: weather_kept_def key_has_def no_adjustment_def Let_def del: filter_filter)
qed

lemma weather_cold:
  assumes "weather_condition w = ''cold''"
  shows "filter_by_weather items w =
     (let kept = filter (\<lambda>i. \<not> lowered_in (color i) [''shorts'', ''tank_top'']) items
      in if kept = [] then items
         else rev (filter (\<lambda>i. lowered_in (category i) [''coat'', ''sweater'']) kept) @
              filter (\<lambda>i. \<not> lowered_in (category i) [''coat'', ''sweater'']) kept)"
proof -
  let ?adj = "no_adjustment\<lparr>prefer_categories := Some [''coat'', ''sweater''],
                avoid := Some [''shorts'', ''tank_top'']\<rparr>"
  have e: "weather_adjustments (weather_condition w) = Some ?adj"
    using assms by (simp add: weather_adjustments_def)
  have n: "neutral ?adj \<noteq> Some True" by (simp add: no_adjustment_def)
  show ?thesis
    unfolding filter_by_weather_entry [OF e n]
    by (simp add: weather_kept_def key_has_def no_adjustment_def Let_def del: filter_filter)
qed

lemma weather_rainy:
  assumes "weather_condition w = ''rainy''"
  shows "filter_by_weather items w =
     (let kept = filter (\<lambda>i. \<not> lowered_in (color i) [''white'', ''suede'']) items
      in if kept = [] then items
         else rev (filter (\<lambda>i. lowered_in (category i) [''jacket'', ''boots'']) kept) @
              filter (\<lambda>i. \<not> lowered_in (category i) [''jacket'', ''boots'']) kept)"
proof -
  let ?adj = "no_adjustment\<lparr>prefer_categories := Some [''jacket'', ''boots''],
                avoid := Some [''white'', ''suede'']\<rparr>"
  have e: "weather_adjustments (weather_condition w) = Some ?adj"
    using assms by (simp add: weather_adjustments_def)
  have n: "neutral ?adj \<noteq> Some True" by (simp add: no_adjustment_def)
  show ?thesis
    unfolding filter_by_weather_entry [OF e n]
    by (simp add: weather_kept_def key_has_def no_adjustment_def Let_def del: filter_filter)
qed

lemma weather_other:
  assumes "weather_condition w \<notin> {''hot'', ''cold'', ''rainy''}"
  shows "filter_by_weather items w = items"
  using assms
  by (simp add: filter_by_weather_def weather_adjustments_def no_adjustment_def)

lemmas sample_eval = weather_condition_def py_lower_def lowered_in_def red_coat_def
  blue_shirt_def blue_shorts_def white_jacket_def black_boots_def

lemmas weather_eval = filter_by_weather_def weather_adjustments_def no_adjustment_def
  weather_step_def key_has_def

text \<open>C3 (a defect of the code): the table lists shorts and tank_top as what to prefer under
  \<^verbatim>\<open>hot\<close> and what to avoid under \<^verbatim>\<open>cold\<close>, as the claim has it. The loop reads the keys
  \<^verbatim>\<open>'avoid_categories'\<close>, \<^verbatim>\<open>'avoid'\<close> and \<^verbatim>\<open>'prefer_categories'\<close> only, and matches
  \<^verbatim>\<open>'avoid'\<close> against colours; the hot list sits under \<^verbatim>\<open>'prefer'\<close> and the cold list
  under \<^verbatim>\<open>'avoid'\<close>. So for a shirt followed by shorts the filter returns the list as it
  is under \<^verbatim>\<open>hot\<close> (the shorts are not moved to the front) and under \<^verbatim>\<open>cold\<close> (the
  shorts are not dropped). Where the keys match, the filter does what the claim says: under
  \<^verbatim>\<open>hot\<close> a coat is dropped, under \<^verbatim>\<open>cold\<close> a coat is moved to the front, under
  \<^verbatim>\<open>rainy\<close> a white jacket is dropped and boots are moved to the front.\<close>

theorem weather_table_keys_not_honoured:
  "map_option prefer_only (weather_adjustments ''hot'') = Some (Some [''shorts'', ''tank_top'']) \<and>
   map_option prefer_categories (weather_adjustments ''hot'') = Some None \<and>
   filter_by_weather [blue_shirt, blue_shorts] (Weather (Some ''hot'')) =
     [blue_shirt, blue_shorts] \<and>
   map_option avoid (weather_adjustments ''cold'') = Some (Some [''shorts'', ''tank_top'']) \<and>
   map_option avoid_categories (weather_adjustments ''cold'') = Some None \<and>
   filter_by_weather [blue_shirt, blue_shorts] (Weather (Some ''cold'')) =
     [blue_shirt, blue_shorts] \<and>
   filter_by_weather [red_coat, blue_shirt] (Weather (Some ''hot'')) = [blue_shirt] \<and>
   filter_by_weather [blue_shirt, red_coat] (Weather (Some ''cold'')) = [red_coat, blue_shirt] \<and>
   filter_by_weather [blue_shirt, white_jacket, black_boots] (Weather (Some ''rainy'')) =
     [black_boots, blue_shirt]"
  by (simp add: sample_eval weather_eval)

section \<open>Properties of the assembler\<close>

lemma categorize_fold:
  "foldl categorize_step cats items =
     \<lparr>tops = tops cats @ filter is_top items,
      bottoms = bottoms cats @ filter is_bottom items,
      outerwear = outerwear cats @ filter is_outerwear items,
      footwear = footwear cats @ filter is_footwear items,
      accessories = accessories cats @ filter is_accessory items\<rparr>"
proof (induction items arbitrary: cats)
  case Nil
  show ?case by simp
next
  case (Cons i items)
  show ?case
    unfolding foldl_Cons Cons.IH
    by (simp add: categorize_step_def Let_def is_top_def [of i] is_bottom_def [of i]
          is_outerwear_def [of i] is_footwear_def [of i] is_accessory_def [of i])
qed

lemma categorize_slots:
  "tops (categorize_items items) = filter is_top items"
  "bottoms (categorize_items items) = filter is_bottom items"
  "outerwear (categorize_items items) = filter is_outerwear items"
  "footwear (categorize_items items) = filter is_footwear items"
  "accessories (categorize_items items) = filter is_accessory items"
  by (simp_all add: categorize_items_def categorize_fold no_items_def)

lemma is_top_no_dress:
  assumes "is_top i"
  shows "has_dress [i] = Inr False"
proof -
  from assms have k: "slot_key i \<in> set essential_tops" by (simp add: is_top_def)
  then obtain c where c: "category i = Some c" "c \<noteq> []"
    by (auto simp: slot_key_def essential_tops_def split: option.splits if_splits)
  with k have "py_lower c \<in> set essential_tops" by (simp add: slot_key_def)
  then have "py_lower c \<noteq> ''dress''" by (auto simp: essential_tops_def)
  with c show ?thesis by simp
qed

lemma hd_filter: "filter P xs \<noteq> [] \<Longrightarrow> P (hd (filter P xs))"
  using hd_in_set [of "filter P xs"] by simp


lemma build_on_categorized:
  "build_complete_outfit (categorize_items items) mood occasion =
     Inr (let c = categorize_items items;
              outfit = take 1 (tops c) @ take 1 (bottoms c) @
                       (if occasion \<in> set [''work'', ''formal'', ''date''] then take 1 (outerwear c) else []) @
                       take 1 (footwear c)
          in if length outfit < 4 then outfit @ take 1 (accessories c) else outfit)"
proof -
  define c where "c = categorize_items items"
  have nd: "has_dress [hd (tops c)] = Inr False" if "tops c \<noteq> []"
  proof -
    from that have "is_top (hd (tops c))"
      unfolding c_def categorize_slots by (rule hd_filter)
    then show ?thesis by (rule is_top_no_dress)
  qed
  have t1: "take 1 xs = (if xs \<noteq> [] then [hd xs] else [])" for xs :: "ClothingItem list"
    by (cases xs) simp_all
  show ?thesis
    unfolding c_def [symmetric] build_complete_outfit_def Let_def t1
    using nd by (cases "tops c = []") simp_all
qed


lemma filter_chain_nonempty:
  "clothing_items \<noteq> [] \<Longrightarrow> filter_chain clothing_items mood occasion w \<noteq> []"
  by (simp add: filter_chain_def Let_def)

lemma create_on_empty_build:
  assumes "clothing_items \<noteq> []"
    and "build_complete_outfit (categorize_items (filter_chain clothing_items mood occasion w))
           mood occasion = Inr []"
  shows "map_option rec_items (create_outfit_recommendation clothing_items mood occasion w) =
           Some (Some (map item_to_dict (take 3 (filter_chain clothing_items mood occasion w))))"
proof -
  have t: "take (min 3 (length xs)) xs = take 3 xs" for xs :: "ClothingItem list"
    by (simp add: min_def)
  show ?thesis
    using assms filter_chain_nonempty [OF assms(1), of mood occasion w]
    by (simp add: create_outfit_recommendation_def Let_def t)
qed

text \<open>C4 (as amended): on the slots made by the categorizer the assembler never fails; the
  outfit has at most 4 items (so at most 5); it is empty exactly when the tops, bottoms,
  footwear and accessories slots are empty and the outerwear slot is empty or the occasion is
  not one of \<^verbatim>\<open>work\<close>, \<^verbatim>\<open>formal\<close>, \<^verbatim>\<open>date\<close>. When the outfit assembled from the filtered
  items of a non-empty collection is empty, the candidate is made of the first up-to-3 items
  of the filtered list.\<close>

theorem build_complete_outfit_empty_iff:
  "(\<exists>outfit_items.
      build_complete_outfit (categorize_items items) mood occasion = Inr outfit_items \<and>
      length outfit_items \<le> 4 \<and>
      (outfit_items = [] \<longleftrightarrow>
         tops (categorize_items items) = [] \<and>
         bottoms (categorize_items items) = [] \<and>
         footwear (categorize_items items) = [] \<and>
         accessories (categorize_items items) = [] \<and>
         (outerwear (categorize_items items) = [] \<or>
          occasion \<notin> set [''work'', ''formal'', ''date'']))) \<and>
   (clothing_items \<noteq> [] \<longrightarrow>
    build_complete_outfit (categorize_items (filter_chain clothing_items mood occasion w))
      mood occasion = Inr [] \<longrightarrow>
    map_option rec_items (create_outfit_recommendation clothing_items mood occasion w) =
      Some (Some (map item_to_dict (take 3 (filter_chain clothing_items mood occasion w)))))"
proof -
  define c where "c = categorize_items items"
  have t1: "length (take 1 xs) \<le> 1" "take 1 xs = [] \<longleftrightarrow> xs = []" for xs :: "ClothingItem list"
    by (cases xs; simp)+
  define base where "base = take 1 (tops c) @ take 1 (bottoms c) @
     (if occasion \<in> set [''work'', ''formal'', ''date''] then take 1 (outerwear c) else []) @
     take 1 (footwear c)"
  define out where "out = (if length base < 4 then base @ take 1 (accessories c) else base)"
  have b: "build_complete_outfit c mood occasion = Inr out"
    unfolding c_def out_def base_def build_on_categorized Let_def by simp
  have lb: "length base \<le> 4"
    unfolding base_def by (auto simp: min_def)
  have l: "length out \<le> 4"
    unfolding out_def using lb by (auto simp: min_def)
  have be: "base = [] \<longleftrightarrow> tops c = [] \<and> bottoms c = [] \<and> footwear c = [] \<and>
      (outerwear c = [] \<or> occasion \<notin> set [''work'', ''formal'', ''date''])"
    unfolding base_def by (auto simp: t1(2))
  have e: "out = [] \<longleftrightarrow> tops c = [] \<and> bottoms c = [] \<and> footwear c = [] \<and>
      accessories c = [] \<and>
      (outerwear c = [] \<or> occasion \<notin> set [''work'', ''formal'', ''date''])"
  proof (cases "base = []")
    case True
    then have "out = take 1 (accessories c)" unfolding out_def by simp
    with True be show ?thesis by (auto simp: t1(2))
  next
    case False
    then have "out \<noteq> []" unfolding out_def by simp
    with False be show ?thesis by blast
  qed
  from b l e create_on_empty_build [of clothing_items mood occasion w]
  show ?thesis unfolding c_def by blast
qed

lemmas chain_eval = filter_chain_def filter_by_occasion_def filter_by_mood_def
  filter_by_weather_def occasion_requirements_def mood_style_mapping_def
  weather_adjustments_def no_adjustment_def occasion_keeps_def mood_keeps_def formality_of_def
  weather_condition_def

lemmas sample_eval2 = py_lower_def lowered_in_def red_jacket_def black_jacket_def

lemma jackets_chain:
  "filter_chain [red_jacket, black_jacket] ''professional'' ''casual'' (Weather (Some ''mild''))
     = [black_jacket]"
  by (simp add: chain_eval sample_eval2)

lemma jacket_slots:
  "categorize_items [black_jacket] = no_items\<lparr>outerwear := [black_jacket]\<rparr>"
  by (simp add: categorize_items_def categorize_step_def slot_key_def no_items_def
        essential_tops_def essential_bottoms_def essential_outerwear_def sample_eval2)

lemma jacket_build:
  "build_complete_outfit (categorize_items [black_jacket]) ''professional'' ''casual'' = Inr []"
  unfolding jacket_slots by (simp add: build_complete_outfit_def no_items_def)

text \<open>Witness for C4: a red and a black jacket, mood \<^verbatim>\<open>professional\<close>, occasion \<^verbatim>\<open>casual\<close>.
  The mood filter keeps the black jacket only, the assembler selects nothing, and the
  candidate is the black jacket.\<close>

theorem build_complete_outfit_empty_iff_witness:
  "[red_jacket, black_jacket] \<noteq> [] \<and>
   build_complete_outfit
     (categorize_items
        (filter_chain [red_jacket, black_jacket] ''professional'' ''casual'' (Weather (Some ''mild''))))
     ''professional'' ''casual'' = Inr [] \<and>
   map_option rec_items
     (create_outfit_recommendation [red_jacket, black_jacket] ''professional'' ''casual''
        (Weather (Some ''mild''))) = Some (Some [item_to_dict black_jacket])"
  using build_complete_outfit_empty_iff [of "[black_jacket]" "''professional''" "''casual''"
      "[red_jacket, black_jacket]" "Weather (Some ''mild'')"]
  by (simp add: jackets_chain jacket_build)

text \<open>Counterexample to C4 as stated: the outfit assembled from the black jacket is empty
  although the outerwear slot holds the jacket; and the fallback candidate is the black
  jacket alone, not the first items of the unfiltered collection (red jacket, black jacket).\<close>

theorem build_complete_outfit_counterexample:
  "build_complete_outfit (categorize_items [black_jacket]) ''professional'' ''casual'' = Inr [] \<and>
   outerwear (categorize_items [black_jacket]) = [black_jacket] \<and>
   map_option rec_items
     (create_outfit_recommendation [red_jacket, black_jacket] ''professional'' ''casual''
        (Weather (Some ''mild''))) = Some (Some [item_to_dict black_jacket]) \<and>
   Some (Some [item_to_dict black_jacket]) \<noteq>
     Some (Some (map item_to_dict (take 3 [red_jacket, black_jacket])))"
proof -
  have a: "outerwear (categorize_items [black_jacket]) = [black_jacket]"
    unfolding jacket_slots by (simp add: no_items_def)
  have b: "map_option rec_items
     (create_outfit_recommendation [red_jacket, black_jacket] ''professional'' ''casual''
        (Weather (Some ''mild''))) = Some (Some [item_to_dict black_jacket])"
    using create_on_empty_build [of "[red_jacket, black_jacket]" "''professional''" "''casual''"
      "Weather (Some ''mild'')"]
    by (simp add: jackets_chain jacket_build)
  have c: "Some (Some [item_to_dict black_jacket]) \<noteq>
     Some (Some (map item_to_dict (take 3 [red_jacket, black_jacket])))"
    by simp
  from jacket_build a b c show ?thesis by blast
qed

section \<open>Properties of the scorer\<close>

lemma colors_coordinate_spec: "colors_coordinate colors = spec_coordinate colors"
proof -
  let ?n = "\<lambda>c. py_lower c \<in> set neutral_colors"
  have len: "length colors = length (filter ?n colors) + length (filter (\<lambda>c. \<not> ?n c) colors)"
    by (simp add: sum_length_filter_compl)
  have all: "list_all ?n colors \<longleftrightarrow> length (filter (\<lambda>c. \<not> ?n c) colors) = 0"
    by (simp add: list_all_iff filter_empty_conv)
  show ?thesis
    unfolding colors_coordinate_def spec_coordinate_def Let_def
    using len all by (cases "colors = []") auto
qed

text \<open>C5: on a non-empty list of outfit items the confidence score is 0.6, plus 0.1 when the
  items have at least 2 distinct categories, plus 0.1 more when they have at least 3, plus 0.1
  when the list of their colours satisfies the coordinate predicate, capped at 1.0. In the
  coordinate predicate "at most one non-neutral colour" counts the entries of the colour list:
  two items of the same non-neutral colour are two.\<close>

theorem confidence_score_formula:
  assumes "outfit_items \<noteq> []"
  shows "calculate_confidence_score outfit_items mood occasion =
     min 1 (6 / 10
            + (if 2 \<le> card (set (map d_category outfit_items)) then 1 / 10 else 0)
            + (if 3 \<le> card (set (map d_category outfit_items)) then 1 / 10 else 0)
            + (if spec_coordinate (map d_color outfit_items) then 1 / 10 else 0))"
proof -
  have c: "length (remdups (map d_category outfit_items)) =
      card (set (map d_category outfit_items))"
    by (rule List.card_set [symmetric])
  show ?thesis
    using assms unfolding calculate_confidence_score_def Let_def c colors_coordinate_spec
    by (simp add: min.commute)
qed

lemma confidence_bounds:
  "0 \<le> calculate_confidence_score its mood occasion \<and>
   calculate_confidence_score its mood occasion \<le> 1"
  by (simp add: calculate_confidence_score_def Let_def)

lemma confidence_at_least:
  "its \<noteq> [] \<Longrightarrow> 6 / 10 \<le> calculate_confidence_score its mood occasion"
  by (simp add: calculate_confidence_score_def Let_def)

lemmas dict_eval = item_to_dict_def py_str_def blue_shirt_def black_boots_def red_coat_def
  black_jacket_def

text \<open>Witness for C5: shirt, boots and coat in blue, black and red (three categories, two
  non-neutral colours) score 0.8; boots and jacket, both black, score 0.8 as well.\<close>

theorem confidence_score_formula_witness:
  "map item_to_dict [blue_shirt, black_boots, red_coat] \<noteq> [] \<and>
   card (set (map d_category (map item_to_dict [blue_shirt, black_boots, red_coat]))) = 3 \<and>
   \<not> spec_coordinate (map d_color (map item_to_dict [blue_shirt, black_boots, red_coat])) \<and>
   calculate_confidence_score (map item_to_dict [blue_shirt, black_boots, red_coat])
     ''relaxed'' ''casual'' = 8 / 10 \<and>
   map item_to_dict [black_boots, black_jacket] \<noteq> [] \<and>
   card (set (map d_category (map item_to_dict [black_boots, black_jacket]))) = 2 \<and>
   spec_coordinate (map d_color (map item_to_dict [black_boots, black_jacket])) \<and>
   calculate_confidence_score (map item_to_dict [black_boots, black_jacket])
     ''relaxed'' ''casual'' = 8 / 10"
proof -
  let ?a = "map item_to_dict [blue_shirt, black_boots, red_coat]"
  let ?b = "map item_to_dict [black_boots, black_jacket]"
  have a1: "?a \<noteq> []" by simp
  have a2: "card (set (map d_category ?a)) = 3" by (simp add: dict_eval)
  have a3: "\<not> spec_coordinate (map d_color ?a)"
    by (simp add: spec_coordinate_def neutral_colors_def py_lower_def dict_eval)
  have b1: "?b \<noteq> []" by simp
  have b2: "card (set (map d_category ?b)) = 2" by (simp add: dict_eval)
  have b3: "spec_coordinate (map d_color ?b)"
    by (simp add: spec_coordinate_def neutral_colors_def py_lower_def dict_eval)
  have a: "calculate_confidence_score ?a ''relaxed'' ''casual'' = 8 / 10"
    unfolding confidence_score_formula [OF a1] a2 using a3 by simp
  have b: "calculate_confidence_score ?b ''relaxed'' ''casual'' = 8 / 10"
    unfolding confidence_score_formula [OF b1] b2 using b3 by simp
  from a1 a2 a3 a b1 b2 b3 b show ?thesis by blast
qed

section \<open>Properties of the orchestrator\<close>

lemma create_is_rule_based:
  assumes "create_outfit_recommendation clothing_items mood occasion w = Some out"
  shows "rule_based_candidate out \<and> final_score out = None"
  using assms
  by (auto simp: create_outfit_recommendation_def rule_based_candidate_def Let_def
        split: if_splits sum.splits)

lemma rule_based_candidate_tagged:
  "rule_based_candidate out \<Longrightarrow>
   rule_based_candidate (out\<lparr>recommendation_method := m, attempt_number := a\<rparr>)"
  by (simp add: rule_based_candidate_def split: option.splits)

lemma rule_based_loop_candidates:
  assumes "\<forall>r\<in>set recommendations. rule_based_candidate r"
  shows "\<forall>r\<in>set (rule_based_loop shuffle user_clothes mood occasion w num attempts recommendations).
           rule_based_candidate r"
  using assms
proof (induction attempts arbitrary: recommendations)
  case Nil
  then show ?case by simp
next
  case (Cons attempt rest)
  show ?case
  proof (cases "create_outfit_recommendation (shuffle attempt user_clothes) mood occasion w")
    case None
    with Cons show ?thesis by simp
  next
    case (Some out)
    let ?recs = "recommendations @
      [out\<lparr>recommendation_method := Some ''rule_based'', attempt_number := Some (int attempt + 1)\<rparr>]"
    from Some have "rule_based_candidate out" by (simp add: create_is_rule_based)
    then have all: "\<forall>r\<in>set ?recs. rule_based_candidate r"
      using Cons.prems by (simp add: rule_based_candidate_tagged)
    from Cons.IH [OF all] all Some show ?thesis
      by (simp add: Let_def)
  qed
qed

lemma generate_rule_based_candidates:
  "\<forall>r\<in>set (generate_rule_based_recommendations shuffle user_clothes mood occasion w num).
     rule_based_candidate r"
  unfolding generate_rule_based_recommendations_def
  by (rule rule_based_loop_candidates) simp

lemma rule_based_confidence:
  assumes "rule_based_candidate r"
  shows "\<exists>c. confidence_score r = Some c \<and> 6 / 10 \<le> c \<and> c \<le> 1"
  using assms confidence_at_least confidence_bounds
  by (auto simp: rule_based_candidate_def split: option.splits)

lemma rule_based_in_range: "rule_based_candidate r \<Longrightarrow> confidence_in_range r"
  using rule_based_confidence [of r]
  by (auto simp: confidence_in_range_def rule_based_candidate_def split: option.splits)

lemma emergency_in_range:
  "create_emergency_recommendation clothing_items mood occasion = Some em \<Longrightarrow>
   confidence_in_range em \<and> confidence_score em = Some (5 / 10)"
  by (auto simp: create_emergency_recommendation_def confidence_in_range_def split: if_splits)

text \<open>C10: on a non-empty list of outfit items the confidence score is at least 0.6; so every
  candidate of the rule-based generator, which always has at least one item, has a confidence
  of at least 0.6, strictly above the 0.5 that the emergency fallback fixes.\<close>

theorem rule_based_confidence_above_emergency:
  "(outfit_items \<noteq> [] \<longrightarrow> 6 / 10 \<le> calculate_confidence_score outfit_items mood occasion) \<and>
   (\<forall>r\<in>set (generate_rule_based_recommendations shuffle user_clothes mood occasion w num).
      \<forall>em. create_emergency_recommendation clothing_items mood' occasion' = Some em \<longrightarrow>
        (\<exists>its c. rec_items r = Some its \<and> its \<noteq> [] \<and>
           confidence_score r = Some c \<and> 6 / 10 \<le> c \<and>
           confidence_score em = Some (5 / 10) \<and> 5 / 10 < c))"
proof -
  have "\<exists>its c. rec_items r = Some its \<and> its \<noteq> [] \<and>
           confidence_score r = Some c \<and> 6 / 10 \<le> c \<and>
           confidence_score em = Some (5 / 10) \<and> 5 / 10 < c"
    if r: "r \<in> set (generate_rule_based_recommendations shuffle user_clothes mood occasion w num)"
      and em: "create_emergency_recommendation clothing_items mood' occasion' = Some em"
    for r em
  proof -
    from r generate_rule_based_candidates have rb: "rule_based_candidate r" by blast
    then obtain c where c: "confidence_score r = Some c" "6 / 10 \<le> c"
      using rule_based_confidence by blast
    from rb obtain its where its: "rec_items r = Some its" "its \<noteq> []"
      by (auto simp: rule_based_candidate_def split: option.splits)
    from em have e: "confidence_score em = Some (5 / 10)" by (simp add: emergency_in_range)
    from c(2) have "5 / 10 < c" by simp
    with c its e show ?thesis by blast
  qed
  then show ?thesis using confidence_at_least by blast
qed


lemma dedup_loop_subset: "set (dedup_loop seen rs) \<subseteq> set rs"
  by (induction rs arbitrary: seen) (auto split: option.splits)

lemma score_one_in_range:
  assumes "confidence_in_range r"
  shows "\<exists>r'. score_one preferred r = Inr r' \<and> scores_in_range r'"
proof -
  from assms obtain its c where its: "rec_items r = Some its"
    and c: "confidence_score r = Some c" "0 \<le> c" "c \<le> 1"
    by (auto simp: confidence_in_range_def split: option.splits)
  define b1 where "b1 = (case preferred of
       None \<Rightarrow> c
     | Some preferred_colors \<Rightarrow>
         if list_ex (\<lambda>x. x \<in> set preferred_colors) (map (\<lambda>it. py_lower (d_color it)) its)
         then c + 1 / 10 else c)"
  define b2 where "b2 = (if recommendation_method r = Some ''ai_enhanced''
       then b1 + 5 / 100 else b1)"
  have e: "score_one preferred r = Inr (r\<lparr>final_score := Some (min b2 1)\<rparr>)"
    unfolding score_one_def b2_def b1_def using its c(1)
    by (simp add: Let_def split: option.splits)
  have "0 \<le> b1" unfolding b1_def using c(2) by (simp split: option.splits)
  then have "0 \<le> b2" unfolding b2_def by simp
  then have "scores_in_range (r\<lparr>final_score := Some (min b2 1)\<rparr>)"
    using c its by (simp add: scores_in_range_def)
  with e show ?thesis by blast
qed

lemma score_all_in_range:
  assumes "\<forall>r\<in>set rs. confidence_in_range r"
  shows "\<exists>rs'. score_all preferred rs = Inr rs' \<and> (\<forall>r'\<in>set rs'. scores_in_range r')"
  using assms
proof (induction rs)
  case Nil
  then show ?case by simp
next
  case (Cons r rs)
  from Cons.prems obtain r' where r': "score_one preferred r = Inr r'" "scores_in_range r'"
    using score_one_in_range [of r preferred] by auto
  from Cons obtain rs' where rs': "score_all preferred rs = Inr rs'"
      "\<forall>x\<in>set rs'. scores_in_range x" by auto
  from r' rs' show ?case by simp
qed

lemma score_recommendations_in_range:
  assumes "\<forall>r\<in>set rs. confidence_in_range r"
  shows "\<exists>rs'. score_recommendations rs preferred = Inr rs' \<and>
           (\<forall>r'\<in>set rs'. scores_in_range r')"
proof -
  from score_all_in_range [OF assms, of preferred]
  obtain scored where scored: "score_all preferred rs = Inr scored"
    "\<forall>r'\<in>set scored. scores_in_range r'" by blast
  have "score_recommendations rs preferred = Inr (sort_key (\<lambda>r. - final_key r) scored)"
    using scored(1) by (simp add: score_recommendations_def)
  moreover have "set (sort_key (\<lambda>r. - final_key r) scored) = set scored"
    by simp
  ultimately show ?thesis using scored(2) by simp
qed

lemma set_py_take: "set (py_take n xs) \<subseteq> set xs"
  by (simp add: py_take_def set_take_subset)

lemma generate_try_in_range:
  "\<exists>rs. generate_try db preferred shuffle mood occasion w num = Inr rs \<and>
        (\<forall>r\<in>set rs. scores_in_range r)"
proof (cases "get_user_clothing db = []")
  case True
  then show ?thesis by (simp add: generate_try_def)
next
  case False
  define user_clothes where "user_clothes = get_user_clothing db"
  define rb where "rb = generate_rule_based_recommendations shuffle user_clothes mood occasion w num"
  define recs where "recs = (if rb = []
       then (case create_emergency_recommendation user_clothes mood occasion of
               None \<Rightarrow> rb | Some emergency_rec \<Rightarrow> [emergency_rec])
       else rb)"
  have rb: "\<forall>r\<in>set rb. confidence_in_range r"
    unfolding rb_def using generate_rule_based_candidates rule_based_in_range by blast
  have recs: "\<forall>r\<in>set recs. confidence_in_range r"
    unfolding recs_def using rb emergency_in_range
    by (auto split: option.splits)
  have "\<forall>r\<in>set (deduplicate_recommendations recs). confidence_in_range r"
    using recs dedup_loop_subset unfolding deduplicate_recommendations_def by blast
  then obtain scored where scored:
    "score_recommendations (deduplicate_recommendations recs) preferred = Inr scored"
    "\<forall>r\<in>set scored. scores_in_range r"
    using score_recommendations_in_range by blast
  have fin: "\<forall>r\<in>set (py_take num scored). scores_in_range r"
    using scored(2) set_py_take [of num scored] by auto
  then have "list_all (\<lambda>r. rec_items r \<noteq> None) (py_take num scored)"
    by (simp add: list_all_iff scores_in_range_def)
  then have "generate_try db preferred shuffle mood occasion w num = Inr (py_take num scored)"
    using False scored(1)
    unfolding generate_try_def Let_def user_clothes_def [symmetric] rb_def [symmetric]
      recs_def [symmetric]
    by simp
  with fin show ?thesis by simp
qed

text \<open>C6: the confidence score of any list of outfit items, the empty list included, lies in
  \<open>[0,1]\<close>. Every candidate the rule-based generator produces, and the emergency candidate,
  has items and a confidence in \<open>[0,1]\<close>; deduplicating and ranking candidates of that kind
  never fails and gives each a final score in \<open>[0,1]\<close>, its confidence unchanged; and every
  candidate that \<^verbatim>\<open>generate_outfit_recommendations\<close> returns, for any database result,
  preferences, shuffles, mood, occasion, weather and count, carries a confidence score and a
  final score that both lie in \<open>[0,1]\<close>.\<close>

theorem scores_within_unit_interval:
  "0 \<le> calculate_confidence_score outfit_items mood occasion \<and>
   calculate_confidence_score outfit_items mood occasion \<le> 1 \<and>
   (\<forall>r\<in>set (generate_rule_based_recommendations shuffle user_clothes mood occasion w num).
      confidence_in_range r) \<and>
   (\<forall>em. create_emergency_recommendation user_clothes mood occasion = Some em \<longrightarrow>
      confidence_in_range em) \<and>
   ((\<forall>r\<in>set recs. confidence_in_range r) \<longrightarrow>
      (\<exists>ranked. score_recommendations (deduplicate_recommendations recs) preferred = Inr ranked \<and>
         (\<forall>r\<in>set ranked. scores_in_range r))) \<and>
   (\<forall>r\<in>set (generate_outfit_recommendations db preferred shuffle mood occasion w num).
      \<exists>c f. confidence_score r = Some c \<and> final_score r = Some f \<and>
            0 \<le> c \<and> c \<le> 1 \<and> 0 \<le> f \<and> f \<le> 1)"
proof -
  obtain rs where rs: "generate_try db preferred shuffle mood occasion w num = Inr rs"
    "\<forall>r\<in>set rs. scores_in_range r"
    using generate_try_in_range by blast
  have g: "generate_outfit_recommendations db preferred shuffle mood occasion w num = rs"
    using rs(1) by (simp add: generate_outfit_recommendations_def)
  have u: "\<exists>c f. confidence_score r = Some c \<and> final_score r = Some f \<and>
            0 \<le> c \<and> c \<le> 1 \<and> 0 \<le> f \<and> f \<le> 1" if "scores_in_range r" for r
    using that by (auto simp: scores_in_range_def split: option.splits)
  have a: "\<forall>r\<in>set (generate_rule_based_recommendations shuffle user_clothes mood occasion w num).
      confidence_in_range r"
    using generate_rule_based_candidates rule_based_in_range by blast
  have b: "\<forall>em. create_emergency_recommendation user_clothes mood occasion = Some em \<longrightarrow>
      confidence_in_range em"
    using emergency_in_range by blast
  have c: "\<exists>ranked. score_recommendations (deduplicate_recommendations recs) preferred = Inr ranked \<and>
         (\<forall>r\<in>set ranked. scores_in_range r)" if "\<forall>r\<in>set recs. confidence_in_range r"
  proof -
    from that have "\<forall>r\<in>set (deduplicate_recommendations recs). confidence_in_range r"
      using dedup_loop_subset unfolding deduplicate_recommendations_def by blast
    then show ?thesis by (rule score_recommendations_in_range)
  qed
  from g u rs(2) have d: "\<forall>r\<in>set (generate_outfit_recommendations db preferred shuffle mood
      occasion w num). \<exists>c f. confidence_score r = Some c \<and> final_score r = Some f \<and>
            0 \<le> c \<and> c \<le> 1 \<and> 0 \<le> f \<and> f \<le> 1" by simp
  from confidence_bounds [of outfit_items mood occasion] a b c d show ?thesis by blast
qed

section \<open>A worked request\<close>

text \<open>A shirt and a pair of boots, mood \<^verbatim>\<open>relaxed\<close>, occasion \<^verbatim>\<open>casual\<close>, no weather,
  one recommendation asked for, the shuffle leaving the order alone.\<close>

lemma shirt_and_boots_chain:
  "filter_chain [blue_shirt, black_boots] ''relaxed'' ''casual'' NoWeather =
     [blue_shirt, black_boots]"
  by (simp add: chain_eval py_lower_def lowered_in_def blue_shirt_def black_boots_def)

lemma shirt_and_boots_slots:
  "categorize_items [blue_shirt, black_boots] =
     no_items\<lparr>tops := [blue_shirt], footwear := [black_boots]\<rparr>"
  by (simp add: categorize_items_def categorize_step_def slot_key_def no_items_def
        essential_tops_def essential_bottoms_def essential_outerwear_def essential_footwear_def
        py_lower_def blue_shirt_def black_boots_def)


lemma shirt_and_boots_build:
  "build_complete_outfit (no_items\<lparr>tops := [blue_shirt], footwear := [black_boots]\<rparr>)
     ''relaxed'' ''casual'' = Inr [blue_shirt, black_boots]"
proof -
  have "has_dress [blue_shirt] = Inr False"
    by (simp add: blue_shirt_def py_lower_def)
  then show ?thesis
    by (simp add: build_complete_outfit_def no_items_def)
qed

lemma shirt_and_boots_score:
  "calculate_confidence_score (map item_to_dict [blue_shirt, black_boots]) ''relaxed'' ''casual''
     = 8 / 10"
  by (simp add: calculate_confidence_score_def colors_coordinate_def neutral_colors_def
        py_lower_def dict_eval)

lemma shirt_and_boots_harmony:
  "assess_color_harmony (map item_to_dict [blue_shirt, black_boots])"
  by (simp add: assess_color_harmony_def colors_coordinate_def neutral_colors_def
        py_lower_def dict_eval)

lemma shirt_and_boots:
  "create_outfit_recommendation [blue_shirt, black_boots] ''relaxed'' ''casual'' NoWeather =
     Some \<lparr>rec_items = Some (map item_to_dict [blue_shirt, black_boots]),
           rec_mood = ''relaxed'', rec_occasion = ''casual'',
           confidence_score = Some (8 / 10), color_harmony = True,
           weather_appropriate = True, recommendation_method = None,
           attempt_number = None, final_score = None\<rparr>"
  unfolding create_outfit_recommendation_def shirt_and_boots_chain shirt_and_boots_slots
    shirt_and_boots_build Let_def
  using shirt_and_boots_score shirt_and_boots_harmony
  by simp

lemma two_attempts: "[0..<nat (1 * 2)] = [0, 1]"
  by (simp add: upt_rec)

lemma shirt_and_boots_rule_based:
  "generate_rule_based_recommendations (\<lambda>k xs. xs) [blue_shirt, black_boots]
      ''relaxed'' ''casual'' NoWeather 1 =
     [\<lparr>rec_items = Some (map item_to_dict [blue_shirt, black_boots]),
           rec_mood = ''relaxed'', rec_occasion = ''casual'',
           confidence_score = Some (8 / 10), color_harmony = True,
           weather_appropriate = True, recommendation_method = Some ''rule_based'',
           attempt_number = Some 1, final_score = None\<rparr>]"
  unfolding generate_rule_based_recommendations_def two_attempts
  by (simp add: shirt_and_boots)


text \<open>Witness for C10: the rule-based candidate of the worked request has confidence 0.8,
  the emergency candidate of the same wardrobe 0.5.\<close>

theorem rule_based_confidence_above_emergency_witness:
  "map item_to_dict [blue_shirt] \<noteq> [] \<and>
   6 / 10 \<le> calculate_confidence_score (map item_to_dict [blue_shirt]) ''relaxed'' ''casual'' \<and>
   map confidence_score
     (generate_rule_based_recommendations (\<lambda>k xs. xs) [blue_shirt, black_boots]
        ''relaxed'' ''casual'' NoWeather 1) = [Some (8 / 10)] \<and>
   map_option confidence_score
     (create_emergency_recommendation [blue_shirt, black_boots] ''relaxed'' ''casual'') =
     Some (Some (5 / 10)) \<and>
   (5 / 10 :: rat) < 8 / 10"
proof -
  let ?r = "\<lparr>rec_items = Some (map item_to_dict [blue_shirt, black_boots]),
           rec_mood = ''relaxed'', rec_occasion = ''casual'',
           confidence_score = Some (8 / 10), color_harmony = True,
           weather_appropriate = True, recommendation_method = Some ''rule_based'',
           attempt_number = Some 1, final_score = None\<rparr>"
  let ?em = "\<lparr>rec_items = Some (map emergency_dict (take 3 [blue_shirt, black_boots])),
                 rec_mood = ''relaxed'', rec_occasion = ''casual'',
                 confidence_score = Some (5 / 10), color_harmony = True,
                 weather_appropriate = True,
                 recommendation_method = Some ''emergency_fallback'',
                 attempt_number = None, final_score = None\<rparr>"
  note t = rule_based_confidence_above_emergency [of "map item_to_dict [blue_shirt]"
      "''relaxed''" "''casual''" "\<lambda>k xs. xs" "[blue_shirt, black_boots]" NoWeather 1
      "[blue_shirt, black_boots]" "''relaxed''" "''casual''"]
  have ne: "map item_to_dict [blue_shirt] \<noteq> []" by simp
  with t have a: "6 / 10 \<le> calculate_confidence_score (map item_to_dict [blue_shirt])
      ''relaxed'' ''casual''" by blast
  have em: "create_emergency_recommendation [blue_shirt, black_boots] ''relaxed'' ''casual'' =
      Some ?em"
    by (simp add: create_emergency_recommendation_def)
  have "?r \<in> set (generate_rule_based_recommendations (\<lambda>k xs. xs) [blue_shirt, black_boots]
        ''relaxed'' ''casual'' NoWeather 1)"
    by (simp add: shirt_and_boots_rule_based)
  with t em have "\<exists>c. confidence_score ?r = Some c \<and> (5 / 10 :: rat) < c" by blast
  then have b: "(5 / 10 :: rat) < 8 / 10" by simp
  from ne a b show ?thesis by (simp add: shirt_and_boots_rule_based em)
qed

lemma dedup_single: "deduplicate_recommendations [r] = [r]"
  by (simp add: deduplicate_recommendations_def split: option.splits)

lemma shirt_and_boots_generate:
  "generate_outfit_recommendations (Inr [blue_shirt, black_boots]) (Some [''blue''])
      (\<lambda>k xs. xs) ''relaxed'' ''casual'' NoWeather 1 =
     [\<lparr>rec_items = Some (map item_to_dict [blue_shirt, black_boots]),
           rec_mood = ''relaxed'', rec_occasion = ''casual'',
           confidence_score = Some (8 / 10), color_harmony = True,
           weather_appropriate = True, recommendation_method = Some ''rule_based'',
           attempt_number = Some 1, final_score = Some (9 / 10)\<rparr>]"
proof -
  let ?r = "\<lparr>rec_items = Some (map item_to_dict [blue_shirt, black_boots]),
           rec_mood = ''relaxed'', rec_occasion = ''casual'',
           confidence_score = Some (8 / 10), color_harmony = True,
           weather_appropriate = True, recommendation_method = Some ''rule_based'',
           attempt_number = Some 1, final_score = None\<rparr>"
  have sc: "score_one (Some [''blue'']) ?r = Inr (?r\<lparr>final_score := Some (9 / 10)\<rparr>)"
    by (simp add: score_one_def py_lower_def dict_eval)
  have "score_recommendations [?r] (Some [''blue'']) = Inr [?r\<lparr>final_score := Some (9 / 10)\<rparr>]"
    unfolding score_recommendations_def score_all.simps sc by simp
  then have "generate_try (Inr [blue_shirt, black_boots]) (Some [''blue''])
      (\<lambda>k xs. xs) ''relaxed'' ''casual'' NoWeather 1 = Inr [?r\<lparr>final_score := Some (9 / 10)\<rparr>]"
    by (simp add: generate_try_def Let_def get_user_clothing_def shirt_and_boots_rule_based
          dedup_single py_take_def)
  then show ?thesis
    by (simp add: generate_outfit_recommendations_def)
qed

text \<open>Witness for C6: the worked request, with blue a preferred colour, returns one
  candidate of confidence 0.8 and final score 0.9; the empty item list scores 0.\<close>

theorem scores_within_unit_interval_witness:
  "map (\<lambda>r. (confidence_score r, final_score r))
     (generate_outfit_recommendations (Inr [blue_shirt, black_boots]) (Some [''blue''])
        (\<lambda>k xs. xs) ''relaxed'' ''casual'' NoWeather 1) = [(Some (8 / 10), Some (9 / 10))] \<and>
   (0 :: rat) \<le> 8 / 10 \<and> (8 / 10 :: rat) \<le> 1 \<and> (0 :: rat) \<le> 9 / 10 \<and> (9 / 10 :: rat) \<le> 1 \<and>
   calculate_confidence_score [] ''relaxed'' ''casual'' = 0 \<and>
   list_all confidence_in_range
     (generate_rule_based_recommendations (\<lambda>k xs. xs) [blue_shirt, black_boots]
        ''relaxed'' ''casual'' NoWeather 1) \<and>
   map_option confidence_in_range
     (create_emergency_recommendation [blue_shirt, black_boots] ''relaxed'' ''casual'') =
     Some True \<and>
   (case score_recommendations (deduplicate_recommendations
       (generate_rule_based_recommendations (\<lambda>k xs. xs) [blue_shirt, black_boots]
          ''relaxed'' ''casual'' NoWeather 1)) (Some [''blue'']) of
      Inl e \<Rightarrow> False
    | Inr ranked \<Rightarrow> ranked \<noteq> [] \<and> list_all scores_in_range ranked)"
proof -
  let ?r = "\<lparr>rec_items = Some (map item_to_dict [blue_shirt, black_boots]),
           rec_mood = ''relaxed'', rec_occasion = ''casual'',
           confidence_score = Some (8 / 10), color_harmony = True,
           weather_appropriate = True, recommendation_method = Some ''rule_based'',
           attempt_number = Some 1, final_score = Some (9 / 10 :: rat)\<rparr>"
  let ?rb = "generate_rule_based_recommendations (\<lambda>k xs. xs) [blue_shirt, black_boots]
        ''relaxed'' ''casual'' NoWeather 1"
  note t = scores_within_unit_interval [of "[]" "''relaxed''" "''casual''" "\<lambda>k xs. xs"
      "[blue_shirt, black_boots]" NoWeather 1 ?rb "Some [''blue'']"
      "Inr [blue_shirt, black_boots]"]
  have "?r \<in> set (generate_outfit_recommendations (Inr [blue_shirt, black_boots]) (Some [''blue''])
        (\<lambda>k xs. xs) ''relaxed'' ''casual'' NoWeather 1)"
    by (simp add: shirt_and_boots_generate)
  with t have "\<exists>c f. confidence_score ?r = Some c \<and> final_score ?r = Some f \<and>
            0 \<le> c \<and> c \<le> 1 \<and> 0 \<le> f \<and> f \<le> 1" by blast
  then have n: "(0 :: rat) \<le> 8 / 10 \<and> (8 / 10 :: rat) \<le> 1 \<and> (0 :: rat) \<le> 9 / 10 \<and>
      (9 / 10 :: rat) \<le> 1"
    by simp
  from t have rb: "list_all confidence_in_range ?rb"
    unfolding list_all_iff by blast
  have em: "create_emergency_recommendation [blue_shirt, black_boots] ''relaxed'' ''casual'' \<noteq> None"
    by (simp add: create_emergency_recommendation_def)
  with t have e: "map_option confidence_in_range
     (create_emergency_recommendation [blue_shirt, black_boots] ''relaxed'' ''casual'') =
     Some True" by auto
  from t rb obtain ranked where
    ranked: "score_recommendations (deduplicate_recommendations ?rb) (Some [''blue'']) = Inr ranked"
      "\<forall>r\<in>set ranked. scores_in_range r"
    unfolding list_all_iff by blast
  have "score_recommendations (deduplicate_recommendations ?rb) (Some [''blue'']) \<noteq> Inr []"
    unfolding shirt_and_boots_rule_based dedup_single
    by (simp add: score_recommendations_def score_one_def py_lower_def dict_eval)
  with ranked have k: "(case score_recommendations (deduplicate_recommendations ?rb)
       (Some [''blue'']) of Inl e \<Rightarrow> False
     | Inr ranked \<Rightarrow> ranked \<noteq> [] \<and> list_all scores_in_range ranked)"
    by (auto simp: list_all_iff)
  have z: "calculate_confidence_score [] ''relaxed'' ''casual'' = 0"
    by (simp add: calculate_confidence_score_def)
  have m: "map (\<lambda>r. (confidence_score r, final_score r))
     (generate_outfit_recommendations (Inr [blue_shirt, black_boots]) (Some [''blue''])
        (\<lambda>k xs. xs) ''relaxed'' ''casual'' NoWeather 1) = [(Some (8 / 10), Some (9 / 10))]"
    by (simp add: shirt_and_boots_generate)
  from m n z rb e k show ?thesis by blast
qed

section \<open>Properties of the deduplicator\<close>

lemma dedup_loop_append:
  "dedup_loop seen (xs @ ys) =
     dedup_loop seen xs @ dedup_loop (seen \<union> {s. Some s \<in> set (map combo_signature xs)}) ys"
proof (induction xs arbitrary: seen)
  case Nil
  show ?case by simp
next
  case (Cons r xs)
  show ?case
  proof (cases "combo_signature r")
    case None
    then have "{s. Some s \<in> set (map combo_signature (r # xs))} =
        {s. Some s \<in> set (map combo_signature xs)}" by auto
    with None Cons show ?thesis by simp
  next
    case (Some sig)
    then have e: "{s. Some s \<in> set (map combo_signature (r # xs))} =
        insert sig {s. Some s \<in> set (map combo_signature xs)}" by auto
    show ?thesis
    proof (cases "sig \<in> seen")
      case True
      then have "seen \<union> insert sig {s. Some s \<in> set (map combo_signature xs)} =
          seen \<union> {s. Some s \<in> set (map combo_signature xs)}" by auto
      with True Some e Cons show ?thesis by simp
    next
      case False
      have "insert sig seen \<union> {s. Some s \<in> set (map combo_signature xs)} =
          seen \<union> insert sig {s. Some s \<in> set (map combo_signature xs)}" by auto
      with False Some e Cons show ?thesis by simp
    qed
  qed
qed

lemma dedup_snoc:
  "deduplicate_recommendations (rs @ [r]) =
     deduplicate_recommendations rs @
       (if combo_signature r = None \<or> combo_signature r \<notin> set (map combo_signature rs)
        then [r] else [])"
  unfolding deduplicate_recommendations_def dedup_loop_append
  by (cases "combo_signature r") auto

lemma first_occurrences_snoc:
  "first_occurrences (rs @ [r]) =
     first_occurrences rs @
       (if combo_signature r = None \<or> combo_signature r \<notin> set (map combo_signature rs)
        then [r] else [])"
proof -
  let ?keep = "\<lambda>xs i. combo_signature (xs ! i) = None \<or>
      combo_signature (xs ! i) \<notin> set (map combo_signature (take i xs))"
  have f: "filter (?keep (rs @ [r])) [0..<length rs] = filter (?keep rs) [0..<length rs]"
    by (rule filter_cong) (auto simp: nth_append)
  have m: "map (\<lambda>i. (rs @ [r]) ! i) (filter (?keep rs) [0..<length rs]) =
      map (\<lambda>i. rs ! i) (filter (?keep rs) [0..<length rs])"
    by (rule map_cong) (auto simp: nth_append)
  have l: "?keep (rs @ [r]) (length rs) \<longleftrightarrow>
      combo_signature r = None \<or> combo_signature r \<notin> set (map combo_signature rs)"
    by simp
  have "first_occurrences (rs @ [r]) =
      map (\<lambda>i. (rs @ [r]) ! i)
        (filter (?keep (rs @ [r])) [0..<length rs] @ filter (?keep (rs @ [r])) [length rs])"
    unfolding first_occurrences_def by simp
  also have "\<dots> = map (\<lambda>i. rs ! i) (filter (?keep rs) [0..<length rs]) @
      map (\<lambda>i. (rs @ [r]) ! i) (filter (?keep (rs @ [r])) [length rs])"
    unfolding f map_append m ..
  also have "map (\<lambda>i. (rs @ [r]) ! i) (filter (?keep (rs @ [r])) [length rs]) =
      (if combo_signature r = None \<or> combo_signature r \<notin> set (map combo_signature rs)
        then [r] else [])"
    using l by simp
  finally show ?thesis unfolding first_occurrences_def .
qed

lemma dedup_is_first_occurrences: "deduplicate_recommendations recs = first_occurrences recs"
proof (induction recs rule: rev_induct)
  case Nil
  show ?case by (simp add: deduplicate_recommendations_def first_occurrences_def)
next
  case (snoc r rs)
  then show ?case by (simp only: dedup_snoc first_occurrences_snoc)
qed

lemma dedup_loop_fresh:
  "r \<in> set (dedup_loop seen rs) \<Longrightarrow> combo_signature r = Some s \<Longrightarrow> s \<notin> seen"
  by (induction rs arbitrary: seen) (auto split: option.splits if_splits)

lemma dedup_loop_distinct:
  "distinct (map combo_signature (filter (\<lambda>r. combo_signature r \<noteq> None) (dedup_loop seen rs)))"
proof (induction rs arbitrary: seen)
  case Nil
  show ?case by simp
next
  case (Cons r rs)
  show ?case
  proof (cases "combo_signature r")
    case None
    with Cons show ?thesis by simp
  next
    case (Some sig)
    show ?thesis
    proof (cases "sig \<in> seen")
      case True
      with Some Cons show ?thesis by simp
    next
      case False
      have "Some sig \<notin> set (map combo_signature
          (filter (\<lambda>r. combo_signature r \<noteq> None) (dedup_loop (insert sig seen) rs)))"
        using dedup_loop_fresh [of _ "insert sig seen" rs sig] by auto
      with False Some Cons show ?thesis by simp
    qed
  qed
qed

lemma dedup_loop_keeps_malformed:
  "filter (\<lambda>r. combo_signature r = None) (dedup_loop seen rs) =
   filter (\<lambda>r. combo_signature r = None) rs"
  by (induction rs arbitrary: seen) (auto split: option.splits)

lemma those_map_Some: "those (map Some xs) = Some xs"
  by (induction xs) simp_all

lemma signature_sorted_ids:
  "rec_items r = Some its \<Longrightarrow> map d_item_id its = map Some ids \<Longrightarrow>
   combo_signature r = Some (sort ids)"
  by (simp add: combo_signature_def those_map_Some)

text \<open>C7: the deduplicator returns, in input order, exactly the candidates whose signature
  cannot be computed and the first candidate of each signature; so the computable signatures
  of the output are pairwise different, every candidate without a signature is kept, and
  the signature of a candidate whose items all have an id is the sorted list of those
  ids.\<close>

theorem deduplicate_first_occurrences:
  "deduplicate_recommendations recs = first_occurrences recs \<and>
   distinct (map combo_signature
     (filter (\<lambda>r. combo_signature r \<noteq> None) (deduplicate_recommendations recs))) \<and>
   filter (\<lambda>r. combo_signature r = None) (deduplicate_recommendations recs) =
     filter (\<lambda>r. combo_signature r = None) recs \<and>
   (\<forall>r its ids. rec_items r = Some its \<longrightarrow> map d_item_id its = map Some ids \<longrightarrow>
      combo_signature r = Some (sort ids))"
  using dedup_is_first_occurrences [of recs] dedup_loop_distinct [of "{}" recs]
    dedup_loop_keeps_malformed [of "{}" recs] signature_sorted_ids
  unfolding deduplicate_recommendations_def by blast


text \<open>Witness for C7: two candidates with the ids a, b in different orders share the
  signature; the second is dropped, as is the repeated first one, while the candidate with
  no items (twice) and the one with an item without id are kept.\<close>

theorem deduplicate_first_occurrences_witness:
  "combo_signature outfit_ab = Some [''a'', ''b''] \<and>
   combo_signature outfit_ba = Some [''a'', ''b''] \<and>
   combo_signature outfit_c = Some [''c''] \<and>
   combo_signature outfit_no_items = None \<and>
   combo_signature outfit_no_id = None \<and>
   outfit_ab \<noteq> outfit_ba \<and>
   deduplicate_recommendations
     [outfit_ab, outfit_no_items, outfit_ba, outfit_c, outfit_no_id, outfit_ab, outfit_no_items] =
     [outfit_ab, outfit_no_items, outfit_c, outfit_no_id, outfit_no_items]"
proof -
  note t = deduplicate_first_occurrences
    [of "[outfit_ab, outfit_no_items, outfit_ba, outfit_c, outfit_no_id, outfit_ab, outfit_no_items]"]
  have i1: "rec_items outfit_ab = Some [dict_with_id (Some ''b''), dict_with_id (Some ''a'')]"
    by (simp add: outfit_ab_def candidate_with_def)
  have m1: "map d_item_id [dict_with_id (Some ''b''), dict_with_id (Some ''a'')] =
      map Some [''b'', ''a'']" by (simp add: dict_with_id_def)
  from t i1 m1 have "combo_signature outfit_ab = Some (sort [''b'', ''a''])" by blast
  then have s1: "combo_signature outfit_ab = Some [''a'', ''b'']" by simp
  have i2: "rec_items outfit_ba = Some [dict_with_id (Some ''a''), dict_with_id (Some ''b'')]"
    by (simp add: outfit_ba_def candidate_with_def)
  have m2: "map d_item_id [dict_with_id (Some ''a''), dict_with_id (Some ''b'')] =
      map Some [''a'', ''b'']" by (simp add: dict_with_id_def)
  from t i2 m2 have "combo_signature outfit_ba = Some (sort [''a'', ''b''])" by blast
  then have s2: "combo_signature outfit_ba = Some [''a'', ''b'']" by simp
  have s3: "combo_signature outfit_c = Some [''c'']"
    by (simp add: combo_signature_def outfit_c_def candidate_with_def dict_with_id_def)
  have s4: "combo_signature outfit_no_items = None"
    by (simp add: combo_signature_def outfit_no_items_def candidate_with_def)
  have s5: "combo_signature outfit_no_id = None"
    by (simp add: combo_signature_def outfit_no_id_def candidate_with_def dict_with_id_def)
  have d: "outfit_ab \<noteq> outfit_ba"
    by (simp add: outfit_ab_def outfit_ba_def candidate_with_def)
  have "deduplicate_recommendations
     [outfit_ab, outfit_no_items, outfit_ba, outfit_c, outfit_no_id, outfit_ab, outfit_no_items] =
     [outfit_ab, outfit_no_items, outfit_c, outfit_no_id, outfit_no_items]"
    by (simp add: deduplicate_recommendations_def s1 s2 s3 s4 s5)
  with s1 s2 s3 s4 s5 d show ?thesis by blast
qed

section \<open>The work scenario and the empty wardrobe\<close>

lemma scenario_occasion:
  "filter_by_occasion (scenario_items t b s) ''work'' = scenario_items t b s"
  by (simp add: filter_by_occasion_def occasion_requirements_def occasion_keeps_def
        formality_of_def lowered_in_def py_lower_def scenario_items_def scenario_item_def)

lemma scenario_mood:
  "filter_by_mood (scenario_items t b s) ''professional'' = scenario_items t b s"
  by (simp add: filter_by_mood_def mood_style_mapping_def mood_keeps_def
        formality_of_def lowered_in_def py_lower_def scenario_items_def scenario_item_def)

lemma scenario_weather:
  "filter_by_weather (scenario_items t b s) (Weather (Some ''mild'')) = scenario_items t b s"
  by (simp add: filter_by_weather_def weather_adjustments_def weather_condition_def
        no_adjustment_def py_lower_def)

lemma scenario_chain:
  "filter_chain (scenario_items t b s) ''professional'' ''work'' (Weather (Some ''mild'')) =
     scenario_items t b s"
proof -
  have "scenario_items t b s \<noteq> []" by (simp add: scenario_items_def)
  then show ?thesis
    by (simp add: filter_chain_def Let_def scenario_occasion scenario_mood scenario_weather)
qed

lemma scenario_black:
  "colors_coordinate (map d_color (map item_to_dict
     [scenario_item i1 c1 f1, scenario_item i2 c2 f2, scenario_item i3 c3 f3]))"
  by (simp add: colors_coordinate_def neutral_colors_def py_lower_def item_to_dict_def
        py_str_def scenario_item_def)

lemma scenario_harmony:
  "assess_color_harmony (map item_to_dict
     [scenario_item i1 c1 f1, scenario_item i2 c2 f2, scenario_item i3 c3 f3])"
  by (simp add: assess_color_harmony_def colors_coordinate_def neutral_colors_def py_lower_def
        item_to_dict_def py_str_def scenario_item_def)

lemma scenario_score:
  assumes "c1 \<noteq> c2" "c1 \<noteq> c3" "c2 \<noteq> c3"
  shows "calculate_confidence_score (map item_to_dict
     [scenario_item i1 c1 f1, scenario_item i2 c2 f2, scenario_item i3 c3 f3]) mood occasion
     = 9 / 10"
proof -
  have "remdups (map d_category (map item_to_dict
     [scenario_item i1 c1 f1, scenario_item i2 c2 f2, scenario_item i3 c3 f3])) = [c1, c2, c3]"
    using assms by (simp add: item_to_dict_def py_str_def scenario_item_def)
  then show ?thesis
    unfolding calculate_confidence_score_def Let_def
    using scenario_black [of i1 c1 f1 i2 c2 f2 i3 c3 f3] by simp
qed

lemma slot_names_lower:
  assumes "c \<in> set essential_tops \<union> set essential_bottoms \<union> set essential_footwear"
  shows "slot_key (scenario_item i c f) = c \<and> py_lower c = c"
  using assms
  by (auto simp: slot_key_def scenario_item_def py_lower_def essential_tops_def
        essential_bottoms_def essential_footwear_def)

lemma slots_disjoint:
  "c \<in> set essential_bottoms \<Longrightarrow> c \<notin> set essential_tops"
  "c \<in> set essential_footwear \<Longrightarrow>
     c \<notin> set essential_tops \<and> c \<notin> set essential_bottoms \<and> c \<notin> set essential_outerwear"
  "c \<in> set essential_tops \<Longrightarrow> c \<noteq> ''dress''"
  by (auto simp: essential_tops_def essential_bottoms_def essential_outerwear_def
        essential_footwear_def)


lemma scenario_literal_slots:
  "categorize_items (scenario_items ''top'' ''bottom'' ''shoes'') =
     no_items\<lparr>tops := [scenario_item ''1'' ''top'' 3],
       footwear := [scenario_item ''3'' ''shoes'' 2],
       accessories := [scenario_item ''2'' ''bottom'' 3]\<rparr>"
  by (simp add: categorize_items_def categorize_step_def slot_key_def no_items_def
        essential_tops_def essential_bottoms_def essential_outerwear_def essential_footwear_def
        py_lower_def scenario_items_def scenario_item_def)

lemma scenario_literal_build:
  "build_complete_outfit (categorize_items (scenario_items ''top'' ''bottom'' ''shoes''))
     ''professional'' ''work'' =
     Inr [scenario_item ''1'' ''top'' 3, scenario_item ''3'' ''shoes'' 2,
          scenario_item ''2'' ''bottom'' 3]"
proof -
  have "has_dress [scenario_item ''1'' ''top'' 3] = Inr False"
    by (simp add: scenario_item_def py_lower_def)
  then show ?thesis
    unfolding scenario_literal_slots by (simp add: build_complete_outfit_def no_items_def)
qed

lemma scenario_slot_build:
  assumes t: "t \<in> set essential_tops" and b: "b \<in> set essential_bottoms"
    and s: "s \<in> set essential_footwear"
  shows "build_complete_outfit (categorize_items (scenario_items t b s))
     ''professional'' ''work'' = Inr (scenario_items t b s)"
proof -
  have kt: "slot_key (scenario_item ''1'' t 3) = t" using t by (simp add: slot_names_lower)
  have kb: "slot_key (scenario_item ''2'' b 3) = b" using b by (simp add: slot_names_lower)
  have ks: "slot_key (scenario_item ''3'' s 2) = s" using s by (simp add: slot_names_lower)
  have slots: "categorize_items (scenario_items t b s) =
     no_items\<lparr>tops := [scenario_item ''1'' t 3], bottoms := [scenario_item ''2'' b 3],
       footwear := [scenario_item ''3'' s 2]\<rparr>"
    using t b s slots_disjoint(1) [of b] slots_disjoint(2) [of s]
    by (simp add: categorize_items_def scenario_items_def categorize_step_def kt kb ks
          no_items_def)
  have "py_lower t \<noteq> ''dress''"
    using t slots_disjoint(3) [of t] slot_names_lower [of t] by simp
  then have "has_dress [scenario_item ''1'' t 3] = Inr False"
    by (simp add: scenario_item_def)
  then show ?thesis
    unfolding slots by (simp add: build_complete_outfit_def no_items_def scenario_items_def)
qed

lemma scenario_candidate:
  assumes "build_complete_outfit (categorize_items (scenario_items t b s))
     ''professional'' ''work'' =
       Inr [scenario_item i1 c1 f1, scenario_item i2 c2 f2, scenario_item i3 c3 f3]"
    and "c1 \<noteq> c2" "c1 \<noteq> c3" "c2 \<noteq> c3"
  shows "create_outfit_recommendation (scenario_items t b s)
     ''professional'' ''work'' (Weather (Some ''mild'')) =
     Some \<lparr>rec_items = Some (map item_to_dict
                [scenario_item i1 c1 f1, scenario_item i2 c2 f2, scenario_item i3 c3 f3]),
           rec_mood = ''professional'', rec_occasion = ''work'',
           confidence_score = Some (9 / 10), color_harmony = True,
           weather_appropriate = True, recommendation_method = None,
           attempt_number = None, final_score = None\<rparr>"
proof -
  have ne: "scenario_items t b s \<noteq> []" by (simp add: scenario_items_def)
  show ?thesis
    unfolding create_outfit_recommendation_def Let_def scenario_chain assms(1)
    using ne scenario_score [OF assms(2-4), of i1 f1 i2 f2 i3 f3 "''professional''" "''work''"]
      scenario_harmony [of i1 c1 f1 i2 c2 f2 i3 c3 f3]
    by simp
qed

text \<open>C8: the scenario's three black items (formality 3, 3, 2), mood \<^verbatim>\<open>professional\<close>,
  occasion \<^verbatim>\<open>work\<close>, weather \<^verbatim>\<open>mild\<close>. Whatever the three categories, each filter
  returns the three items and their colours coordinate. With the categories named
  \<^verbatim>\<open>top\<close>, \<^verbatim>\<open>bottom\<close>, \<^verbatim>\<open>shoes\<close> the candidate holds all three items (the bottom as
  the accessory, since \<^verbatim>\<open>bottom\<close> is not in the bottoms table) with confidence 0.9; with
  any category of the tops, bottoms and footwear tables the candidate holds the three items
  in their order, again with confidence 0.9, which is at least 0.8.\<close>

theorem work_scenario:
  "filter_by_occasion (scenario_items t b s) ''work'' = scenario_items t b s \<and>
   filter_by_mood (scenario_items t b s) ''professional'' = scenario_items t b s \<and>
   filter_by_weather (scenario_items t b s) (Weather (Some ''mild'')) = scenario_items t b s \<and>
   colors_coordinate (map d_color (map item_to_dict (scenario_items t b s))) \<and>
   create_outfit_recommendation (scenario_items ''top'' ''bottom'' ''shoes'')
     ''professional'' ''work'' (Weather (Some ''mild'')) =
     Some \<lparr>rec_items = Some (map item_to_dict
                [scenario_item ''1'' ''top'' 3, scenario_item ''3'' ''shoes'' 2,
                 scenario_item ''2'' ''bottom'' 3]),
           rec_mood = ''professional'', rec_occasion = ''work'',
           confidence_score = Some (9 / 10), color_harmony = True,
           weather_appropriate = True, recommendation_method = None,
           attempt_number = None, final_score = None\<rparr> \<and>
   (t \<in> set essential_tops \<longrightarrow> b \<in> set essential_bottoms \<longrightarrow> s \<in> set essential_footwear \<longrightarrow>
    create_outfit_recommendation (scenario_items t b s)
      ''professional'' ''work'' (Weather (Some ''mild'')) =
      Some \<lparr>rec_items = Some (map item_to_dict (scenario_items t b s)),
            rec_mood = ''professional'', rec_occasion = ''work'',
            confidence_score = Some (9 / 10), color_harmony = True,
            weather_appropriate = True, recommendation_method = None,
            attempt_number = None, final_score = None\<rparr>) \<and>
   (8 / 10 :: rat) \<le> 9 / 10"
proof -
  have lit: "create_outfit_recommendation (scenario_items ''top'' ''bottom'' ''shoes'')
     ''professional'' ''work'' (Weather (Some ''mild'')) =
     Some \<lparr>rec_items = Some (map item_to_dict
                [scenario_item ''1'' ''top'' 3, scenario_item ''3'' ''shoes'' 2,
                 scenario_item ''2'' ''bottom'' 3]),
           rec_mood = ''professional'', rec_occasion = ''work'',
           confidence_score = Some (9 / 10), color_harmony = True,
           weather_appropriate = True, recommendation_method = None,
           attempt_number = None, final_score = None\<rparr>"
    by (rule scenario_candidate [OF scenario_literal_build]) simp_all
  have gen: "create_outfit_recommendation (scenario_items t b s)
      ''professional'' ''work'' (Weather (Some ''mild'')) =
      Some \<lparr>rec_items = Some (map item_to_dict (scenario_items t b s)),
            rec_mood = ''professional'', rec_occasion = ''work'',
            confidence_score = Some (9 / 10), color_harmony = True,
            weather_appropriate = True, recommendation_method = None,
            attempt_number = None, final_score = None\<rparr>"
    if t: "t \<in> set essential_tops" and b: "b \<in> set essential_bottoms"
      and s: "s \<in> set essential_footwear"
  proof -
    have d: "t \<noteq> b" "t \<noteq> s" "b \<noteq> s"
      using t b s slots_disjoint(1) [of b] slots_disjoint(2) [of s] by auto
    have bo: "build_complete_outfit (categorize_items (scenario_items t b s))
        ''professional'' ''work'' =
        Inr [scenario_item ''1'' t 3, scenario_item ''2'' b 3, scenario_item ''3'' s 2]"
      using scenario_slot_build [OF t b s] by (simp add: scenario_items_def)
    show ?thesis
      using scenario_candidate [OF bo d] by (simp add: scenario_items_def)
  qed
  have co: "colors_coordinate (map d_color (map item_to_dict (scenario_items t b s)))"
    unfolding scenario_items_def by (rule scenario_black)
  have n: "(8 / 10 :: rat) \<le> 9 / 10" by simp
  from scenario_occasion scenario_mood scenario_weather co lit gen n
  show ?thesis by blast
qed

text \<open>Witness for C8: a shirt, trousers and shoes.\<close>

theorem work_scenario_witness:
  "''shirt'' \<in> set essential_tops \<and> ''trousers'' \<in> set essential_bottoms \<and>
   ''shoes'' \<in> set essential_footwear \<and>
   create_outfit_recommendation (scenario_items ''shirt'' ''trousers'' ''shoes'')
      ''professional'' ''work'' (Weather (Some ''mild'')) =
      Some \<lparr>rec_items = Some (map item_to_dict (scenario_items ''shirt'' ''trousers'' ''shoes'')),
            rec_mood = ''professional'', rec_occasion = ''work'',
            confidence_score = Some (9 / 10), color_harmony = True,
            weather_appropriate = True, recommendation_method = None,
            attempt_number = None, final_score = None\<rparr>"
proof -
  have t: "''shirt'' \<in> set essential_tops" by (simp add: essential_tops_def)
  have b: "''trousers'' \<in> set essential_bottoms" by (simp add: essential_bottoms_def)
  have s: "''shoes'' \<in> set essential_footwear" by (simp add: essential_footwear_def)
  from work_scenario [of "''shirt''" "''trousers''" "''shoes''"] t b s show ?thesis by blast
qed

text \<open>C9: when the item query returns no rows, the body of the \<^verbatim>\<open>try\<close> returns the empty
  list without raising, and so does the function; a failing query is treated the same.\<close>

theorem empty_wardrobe_returns_empty:
  "generate_try (Inr []) preferred shuffle mood occasion w num = Inr [] \<and>
   generate_outfit_recommendations (Inr []) preferred shuffle mood occasion w num = [] \<and>
   generate_try (Inl e) preferred shuffle mood occasion w num = Inr [] \<and>
   generate_outfit_recommendations (Inl e) preferred shuffle mood occasion w num = []"
  by (simp add: generate_outfit_recommendations_def generate_try_def get_user_clothing_def)

end
